theory Spec2Isabelle
  imports Complex_Main "HOL-Library.Multiset"
begin

section \<open>MealShare backend: data model\<close>

text \<open>
  The three tables of \<^verbatim>\<open>backend/database.js\<close>, one record per row. Every table is the
  list of its rows in insertion order. Timestamps (\<^verbatim>\<open>CURRENT_TIMESTAMP\<close>,
  \<^verbatim>\<open>datetime('now')\<close>) have a resolution of one second and are compared as such, so
  they are modelled as a number of seconds. The column \<^verbatim>\<open>portions_available\<close> holds whatever
  number the merchant's request carried: SQLite's \<^verbatim>\<open>INTEGER\<close> affinity keeps a number that is
  not an integer as a \<^verbatim>\<open>REAL\<close>. Numbers are the rationals they denote.
\<close>

type_synonym timestamp = int

record user =
  user_id :: int
  user_name :: string
  user_email :: string
  password_hash :: string
  user_role :: string
  user_created_at :: timestamp

record meal =
  meal_id :: int
  merchant_id :: int
  title :: string
  description :: string
  portions_available :: rat
  pickup_time :: string
  meal_created_at :: timestamp

record reservation =
  reservation_id :: int
  res_user_id :: int
  res_meal_id :: int
  res_created_at :: timestamp

text \<open>
  The connection also remembers the rowid of its last successful INSERT: the sqlite3
  binding reports it as \<^verbatim>\<open>this.lastID\<close> after every \<^verbatim>\<open>db.run\<close>.
\<close>

record db =
  users :: "user list"
  meals :: "meal list"
  reservations :: "reservation list"
  last_id :: int

text \<open>\<^verbatim>\<open>INTEGER PRIMARY KEY AUTOINCREMENT\<close>: one more than the largest rowid used so far.\<close>

definition next_id :: "int list \<Rightarrow> int" where
  "next_id ids = fold max ids 0 + 1"

section \<open>JSON values, requests and responses\<close>

datatype json =
    JNull
  | JBool bool
  | JNum rat
  | JStr string
  | JArr "json list"
  | JObj "(string \<times> json) list"

record response =
  status :: nat
  payload :: json

definition error_response :: "nat \<Rightarrow> string \<Rightarrow> response" where
  "error_response code msg = \<lparr>status = code, payload = JObj [(''error'', JStr msg)]\<rparr>"

text \<open>
  \<^verbatim>\<open>req.body\<close> after \<^verbatim>\<open>express.json()\<close>: every field the handlers destructure, absent
  fields being \<open>None\<close>. Text fields carry strings and \<^verbatim>\<open>portions_available\<close> a JSON number,
  which need not be an integer.
\<close>

record body =
  b_name :: "string option"
  b_email :: "string option"
  b_password :: "string option"
  b_role :: "string option"
  b_title :: "string option"
  b_description :: "string option"
  b_portions_available :: "rat option"
  b_pickup_time :: "string option"

definition empty_body :: body where
  "empty_body = \<lparr>b_name = None, b_email = None, b_password = None, b_role = None,
     b_title = None, b_description = None, b_portions_available = None,
     b_pickup_time = None\<rparr>"

text \<open>JavaScript's \<^verbatim>\<open>!x\<close>: an absent field, the empty string and the number 0 are falsy.\<close>

fun falsy_str :: "string option \<Rightarrow> bool" where
  "falsy_str None = True"
| "falsy_str (Some s) = (s = [])"

fun falsy_num :: "rat option \<Rightarrow> bool" where
  "falsy_num None = True"
| "falsy_num (Some n) = (n = 0)"

text \<open>\<^verbatim>\<open>x || ""\<close> on a text field.\<close>

fun or_empty :: "string option \<Rightarrow> string" where
  "or_empty None = []"
| "or_empty (Some s) = s"

text \<open>The identity claims embedded in a bearer token: \<^verbatim>\<open>{id, email, role}\<close>.\<close>

record claims =
  c_id :: int
  c_email :: string
  c_role :: string

text \<open>
  What a handler takes from outside the store: the bcrypt and jsonwebtoken libraries
  (as the functions they compute for this call, \<open>None\<close> being the error callback),
  the clock, and which of the request's SQL statements (numbered from 0 in the order
  the handler issues them) ends in a storage error.
\<close>

record env =
  bcrypt_hash :: "string \<Rightarrow> string option"
  bcrypt_compare :: "string \<Rightarrow> string \<Rightarrow> bool"
  jwt_sign :: "claims \<Rightarrow> string"
  jwt_verify :: "string \<Rightarrow> claims option"
  now :: timestamp
  db_fault :: "nat \<Rightarrow> bool"

section \<open>Middleware: authenticateToken\<close>

text \<open>\<^verbatim>\<open>String.prototype.split(" ")\<close>: never empty, \<open>n + 1\<close> pieces for \<open>n\<close> spaces.\<close>

fun split_space :: "string \<Rightarrow> string list" where
  "split_space [] = [[]]"
| "split_space (c # cs) =
     (if c = CHR '' '' then [] # split_space cs
      else (case split_space cs of
              [] \<Rightarrow> [[c]]
            | w # ws \<Rightarrow> (c # w) # ws))"

text \<open>\<^verbatim>\<open>authHeader && authHeader.split(" ")[1]\<close>, then \<^verbatim>\<open>!token\<close>.\<close>

definition bearer_token :: "string option \<Rightarrow> string option" where
  "bearer_token authHeader =
     (case authHeader of
        None \<Rightarrow> None
      | Some h \<Rightarrow>
          if h = [] then None
          else (case split_space h of
                  _ # t # _ \<Rightarrow> if t = [] then None else Some t
                | _ \<Rightarrow> None))"

definition authenticateToken :: "env \<Rightarrow> string option \<Rightarrow> response + claims" where
  "authenticateToken e authHeader =
     (case bearer_token authHeader of
        None \<Rightarrow> Inl (error_response 401 ''Missing token.'')
      | Some token \<Rightarrow>
          (case jwt_verify e token of
             None \<Rightarrow> Inl (error_response 403 ''Invalid token.'')
           | Some userData \<Rightarrow> Inr userData))"

section \<open>POST /meals\<close>

definition insert_meal :: "int \<Rightarrow> string \<Rightarrow> string \<Rightarrow> rat \<Rightarrow> string \<Rightarrow> timestamp \<Rightarrow> db \<Rightarrow> db" where
  "insert_meal mid t d p pt ts s =
     (let i = next_id (map meal_id (meals s)) in
      s\<lparr>meals := meals s @
           [\<lparr>meal_id = i, merchant_id = mid, title = t, description = d,
             portions_available = p, pickup_time = pt, meal_created_at = ts\<rparr>],
        last_id := i\<rparr>)"

definition create_meal :: "env \<Rightarrow> claims \<Rightarrow> body \<Rightarrow> db \<Rightarrow> response \<times> db" where
  "create_meal e u b s =
     (if c_role u \<noteq> ''merchant'' then
        (error_response 403 ''Only merchants can create meals.'', s)
      else if falsy_str (b_title b) \<or> falsy_num (b_portions_available b)
              \<or> falsy_str (b_pickup_time b) then
        (error_response 400 ''Title, portions and pickup_time are required.'', s)
      else if db_fault e 0 then
        (error_response 500 ''Database error.'', s)
      else
        (let t = the (b_title b);
             d = or_empty (b_description b);
             p = the (b_portions_available b);
             pt = the (b_pickup_time b);
             s' = insert_meal (c_id u) t d p pt (now e) s
         in (\<lparr>status = 201,
              payload = JObj [(''id'', JNum (of_int (last_id s'))),
                (''merchant_id'', JNum (of_int (c_id u))),
                (''title'', JStr t), (''description'', JStr d),
                (''portions_available'', JNum p), (''pickup_time'', JStr pt),
                (''created_at'', JNum (of_int (now e)))]\<rparr>, s')))"

section \<open>POST /register\<close>

text \<open>How a \<^verbatim>\<open>db.run\<close> can fail: the message of a violated UNIQUE constraint, or anything else.\<close>

datatype dberr = UniqueConstraintFailed | StorageError

definition insert_user ::
  "bool \<Rightarrow> string \<Rightarrow> string \<Rightarrow> string \<Rightarrow> string \<Rightarrow> timestamp \<Rightarrow> db \<Rightarrow> dberr + db" where
  "insert_user fault n em h r ts s =
     (if fault then Inl StorageError
      else if em \<in> set (map user_email (users s)) then Inl UniqueConstraintFailed
      else
        (let i = next_id (map user_id (users s)) in
         Inr (s\<lparr>users := users s @
                  [\<lparr>user_id = i, user_name = n, user_email = em, password_hash = h,
                    user_role = r, user_created_at = ts\<rparr>],
                last_id := i\<rparr>)))"

definition register :: "env \<Rightarrow> body \<Rightarrow> db \<Rightarrow> response \<times> db" where
  "register e b s =
     (if falsy_str (b_name b) \<or> falsy_str (b_email b) \<or> falsy_str (b_password b) then
        (error_response 400 ''Name, email and password are required.'', s)
      else
        (let n = the (b_name b);
             em = the (b_email b);
             userRole = (if b_role b = Some ''merchant'' then ''merchant'' else ''user'')
         in case bcrypt_hash e (the (b_password b)) of
              None \<Rightarrow> (error_response 500 ''Internal server error.'', s)
            | Some h \<Rightarrow>
                (case insert_user (db_fault e 0) n em h userRole (now e) s of
                   Inl UniqueConstraintFailed \<Rightarrow>
                     (error_response 400 ''Email is already registered.'', s)
                 | Inl StorageError \<Rightarrow> (error_response 500 ''Database error.'', s)
                 | Inr s' \<Rightarrow>
                     (\<lparr>status = 201,
                       payload = JObj [(''id'', JNum (of_int (last_id s'))), (''name'', JStr n),
                         (''email'', JStr em), (''role'', JStr userRole),
                         (''created_at'', JNum (of_int (now e)))]\<rparr>, s'))))"

section \<open>POST /login\<close>

text \<open>\<^verbatim>\<open>SELECT * FROM users WHERE email = ?\<close> through \<^verbatim>\<open>db.get\<close>: the first matching row.\<close>

definition find_user_by_email :: "db \<Rightarrow> string \<Rightarrow> user option" where
  "find_user_by_email s em = find (\<lambda>u. user_email u = em) (users s)"

definition login :: "env \<Rightarrow> body \<Rightarrow> db \<Rightarrow> response" where
  "login e b s =
     (if falsy_str (b_email b) \<or> falsy_str (b_password b) then
        error_response 400 ''Email and password are required.''
      else if db_fault e 0 then error_response 500 ''Database error.''
      else
        (case find_user_by_email s (the (b_email b)) of
           None \<Rightarrow> error_response 400 ''User not found.''
         | Some u \<Rightarrow>
             if \<not> bcrypt_compare e (the (b_password b)) (password_hash u) then
               error_response 400 ''Incorrect password.''
             else
               (let token = jwt_sign e
                      \<lparr>c_id = user_id u, c_email = user_email u, c_role = user_role u\<rparr>
                in \<lparr>status = 200,
                     payload = JObj [(''message'', JStr ''Login successful!''),
                       (''token'', JStr token),
                       (''user'', JObj [(''id'', JNum (of_int (user_id u))),
                          (''name'', JStr (user_name u)), (''email'', JStr (user_email u)),
                          (''role'', JStr (user_role u))])]\<rparr>)))"

section \<open>GET /meals\<close>

text \<open>
  \<^verbatim>\<open>SELECT meals.*, users.name AS merchant_name FROM meals
  INNER JOIN users ON meals.merchant_id = users.id ORDER BY meals.created_at DESC\<close>:
  the join pairs every meal with the name of every user row whose id is its
  \<^verbatim>\<open>merchant_id\<close>; the rows are then sorted on \<^verbatim>\<open>created_at\<close>, largest first.
\<close>

definition join_merchant :: "db \<Rightarrow> (meal \<times> string) list" where
  "join_merchant s =
     concat (map (\<lambda>m. map (\<lambda>u. (m, user_name u))
                        (filter (\<lambda>u. merchant_id m = user_id u) (users s)))
                 (meals s))"

definition list_meals :: "db \<Rightarrow> (meal \<times> string) list" where
  "list_meals s = sort_key (\<lambda>row. - meal_created_at (fst row)) (join_merchant s)"

definition meal_row_json :: "meal \<times> string \<Rightarrow> json" where
  "meal_row_json row =
     (let m = fst row in
      JObj [(''id'', JNum (of_int (meal_id m))),
        (''merchant_id'', JNum (of_int (merchant_id m))),
        (''title'', JStr (title m)), (''description'', JStr (description m)),
        (''portions_available'', JNum (portions_available m)),
        (''pickup_time'', JStr (pickup_time m)),
        (''created_at'', JNum (of_int (meal_created_at m))),
        (''merchant_name'', JStr (snd row))])"

definition get_meals :: "env \<Rightarrow> db \<Rightarrow> response" where
  "get_meals e s =
     (if db_fault e 0 then error_response 500 ''Database error.''
      else \<lparr>status = 200, payload = JArr (map meal_row_json (list_meals s))\<rparr>)"

section \<open>POST /meals/:id/reserve\<close>

definition three_days :: int where
  "three_days = 3 * 24 * 60 * 60"

text \<open>
  \<^verbatim>\<open>SELECT * FROM reservations WHERE user_id = ? AND created_at > datetime('now', '-3 days')
  ORDER BY created_at DESC LIMIT 1\<close>
\<close>

definition recent_reservation :: "db \<Rightarrow> int \<Rightarrow> timestamp \<Rightarrow> reservation option" where
  "recent_reservation s uid t =
     (case sort_key (\<lambda>r. - res_created_at r)
             (filter (\<lambda>r. res_user_id r = uid \<and> res_created_at r > t - three_days)
                (reservations s)) of
        [] \<Rightarrow> None
      | r # _ \<Rightarrow> Some r)"

text \<open>\<^verbatim>\<open>SELECT * FROM meals WHERE id = ?\<close> through \<^verbatim>\<open>db.get\<close>.\<close>

definition get_meal :: "db \<Rightarrow> int \<Rightarrow> meal option" where
  "get_meal s mid = find (\<lambda>m. meal_id m = mid) (meals s)"

text \<open>\<^verbatim>\<open>INSERT INTO reservations (user_id, meal_id) VALUES (?, ?)\<close>\<close>

definition insert_reservation :: "int \<Rightarrow> int \<Rightarrow> timestamp \<Rightarrow> db \<Rightarrow> db" where
  "insert_reservation uid mid ts s =
     (let i = next_id (map reservation_id (reservations s)) in
      s\<lparr>reservations := reservations s @
           [\<lparr>reservation_id = i, res_user_id = uid, res_meal_id = mid,
             res_created_at = ts\<rparr>],
        last_id := i\<rparr>)"

text \<open>\<^verbatim>\<open>UPDATE meals SET portions_available = portions_available - 1 WHERE id = ?\<close>\<close>

definition decrement_portions :: "int \<Rightarrow> db \<Rightarrow> db" where
  "decrement_portions mid s =
     s\<lparr>meals := map (\<lambda>m. if meal_id m = mid
                          then m\<lparr>portions_available := portions_available m - 1\<rparr>
                          else m) (meals s)\<rparr>"

text \<open>
  The 201 response. \<^verbatim>\<open>meal_id\<close> echoes \<^verbatim>\<open>req.params.id\<close>, the text of the path segment: the
  decimal numeral of the id.
\<close>

definition digit_char :: "nat \<Rightarrow> char" where
  "digit_char d = ''0123456789'' ! d"

function decimal_nat :: "nat \<Rightarrow> string" where
  "decimal_nat n =
     (if n < 10 then [digit_char n] else decimal_nat (n div 10) @ [digit_char (n mod 10)])"
  by pat_completeness auto
termination
  by (relation "measure (\<lambda>n. n)") auto

declare decimal_nat.simps [simp del]

definition decimal :: "int \<Rightarrow> string" where
  "decimal i = (if i < 0 then CHR ''-'' # decimal_nat (nat (- i)) else decimal_nat (nat i))"

definition reservation_created :: "int \<Rightarrow> int \<Rightarrow> int \<Rightarrow> response" where
  "reservation_created lastID userId mealId =
     \<lparr>status = 201,
      payload = JObj [(''message'', JStr ''Reservation created successfully.''),
        (''reservation'', JObj [(''id'', JNum (of_int lastID)),
           (''user_id'', JNum (of_int userId)), (''meal_id'', JStr (decimal mealId))])]\<rparr>"

text \<open>
  The handler as its chain of callbacks, for a request whose four statements run
  with no statement of another request in between. The path parameter \<^verbatim>\<open>:id\<close> is the
  integer it denotes, written as its decimal numeral.
\<close>

definition reserve :: "env \<Rightarrow> claims \<Rightarrow> int \<Rightarrow> db \<Rightarrow> response \<times> db" where
  "reserve e u mealId s =
     (let userId = c_id u in
      if c_role u \<noteq> ''user'' then
        (error_response 403 ''Only regular users can reserve meals.'', s)
      else if db_fault e 0 then (error_response 500 ''Database error.'', s)
      else
        (case recent_reservation s userId (now e) of
           Some recent \<Rightarrow>
             (error_response 400 ''You can only reserve one meal every 3 days.'', s)
         | None \<Rightarrow>
             if db_fault e 1 then (error_response 500 ''Database error.'', s)
             else
               (case get_meal s mealId of
                  None \<Rightarrow> (error_response 404 ''Meal not found.'', s)
                | Some m \<Rightarrow>
                    if portions_available m \<le> 0 then
                      (error_response 400 ''No portions left for this meal.'', s)
                    else if db_fault e 2 then (error_response 500 ''Database error.'', s)
                    else
                      (let s1 = insert_reservation userId mealId (now e) s in
                       if db_fault e 3 then (error_response 500 ''Database error.'', s1)
                       else
                         (let s2 = decrement_portions mealId s1 in
                          (reservation_created (last_id s2) userId mealId, s2))))))"

section \<open>The routes\<close>

datatype route = GetRoot | PostRegister | PostLogin | PostMeals | GetMeals | PostReserve int

record request =
  r_route :: route
  r_authorization :: "string option"
  r_body :: body

definition app :: "env \<Rightarrow> request \<Rightarrow> db \<Rightarrow> response \<times> db" where
  "app e req s =
     (case r_route req of
        GetRoot \<Rightarrow>
          (\<lparr>status = 200,
            payload = JObj [(''message'',
              JStr (''MealShare API is running '' @ [CHR 0xF0, CHR 0x9F, CHR 0x9A, CHR 0x80]))]\<rparr>,
           s)
      | PostRegister \<Rightarrow> register e (r_body req) s
      | PostLogin \<Rightarrow> (login e (r_body req) s, s)
      | PostMeals \<Rightarrow>
          (case authenticateToken e (r_authorization req) of
             Inl r \<Rightarrow> (r, s)
           | Inr u \<Rightarrow> create_meal e u (r_body req) s)
      | GetMeals \<Rightarrow> (get_meals e s, s)
      | PostReserve mealId \<Rightarrow>
          (case authenticateToken e (r_authorization req) of
             Inl r \<Rightarrow> (r, s)
           | Inr u \<Rightarrow> reserve e u mealId s))"

section \<open>Reservation requests in flight together\<close>

text \<open>
  Every \<^verbatim>\<open>db.get\<close> and \<^verbatim>\<open>db.run\<close> of the handler is asynchronous: the statement is
  handed to the connection and the handler's next part runs in the callback. Between a
  statement of one request and the next statement of the same request the connection
  may run statements of other requests. A request in flight is therefore the
  statement it is waiting for (or the response it has sent); one step runs that
  statement on the store and then its callback.
\<close>

datatype pending =
    QueryRecent
  | QueryMeal
  | InsertReservation
  | UpdatePortions
  | Responded response

record task =
  t_user :: int
  t_meal :: int
  t_pending :: pending

definition reserve_begin :: "claims \<Rightarrow> int \<Rightarrow> task" where
  "reserve_begin u mealId =
     \<lparr>t_user = c_id u, t_meal = mealId,
      t_pending = (if c_role u \<noteq> ''user''
                   then Responded (error_response 403 ''Only regular users can reserve meals.'')
                   else QueryRecent)\<rparr>"

fun reserve_step :: "bool \<Rightarrow> timestamp \<Rightarrow> task \<Rightarrow> db \<Rightarrow> task \<times> db" where
  "reserve_step fault t k s =
     (case t_pending k of
        Responded r \<Rightarrow> (k, s)
      | QueryRecent \<Rightarrow>
          if fault then (k\<lparr>t_pending := Responded (error_response 500 ''Database error.'')\<rparr>, s)
          else (case recent_reservation s (t_user k) t of
                  Some recent \<Rightarrow>
                    (k\<lparr>t_pending := Responded
                         (error_response 400 ''You can only reserve one meal every 3 days.'')\<rparr>, s)
                | None \<Rightarrow> (k\<lparr>t_pending := QueryMeal\<rparr>, s))
      | QueryMeal \<Rightarrow>
          if fault then (k\<lparr>t_pending := Responded (error_response 500 ''Database error.'')\<rparr>, s)
          else (case get_meal s (t_meal k) of
                  None \<Rightarrow> (k\<lparr>t_pending := Responded (error_response 404 ''Meal not found.'')\<rparr>, s)
                | Some m \<Rightarrow>
                    if portions_available m \<le> 0 then
                      (k\<lparr>t_pending := Responded
                           (error_response 400 ''No portions left for this meal.'')\<rparr>, s)
                    else (k\<lparr>t_pending := InsertReservation\<rparr>, s))
      | InsertReservation \<Rightarrow>
          if fault then (k\<lparr>t_pending := Responded (error_response 500 ''Database error.'')\<rparr>, s)
          else (k\<lparr>t_pending := UpdatePortions\<rparr>, insert_reservation (t_user k) (t_meal k) t s)
      | UpdatePortions \<Rightarrow>
          if fault then (k\<lparr>t_pending := Responded (error_response 500 ''Database error.'')\<rparr>, s)
          else (let s2 = decrement_portions (t_meal k) s in
                (k\<lparr>t_pending := Responded
                     (reservation_created (last_id s2) (t_user k) (t_meal k))\<rparr>, s2)))"

text \<open>
  A schedule names, step by step, the request whose pending statement the connection
  runs next; no statement faults.
\<close>

fun interleave :: "timestamp \<Rightarrow> nat list \<Rightarrow> task list \<Rightarrow> db \<Rightarrow> task list \<times> db" where
  "interleave t [] ks s = (ks, s)"
| "interleave t (i # sched) ks s =
     (if i < length ks then
        (case reserve_step False t (ks ! i) s of
           (k', s') \<Rightarrow> interleave t sched (ks[i := k']) s')
      else interleave t sched ks s)"

text \<open>A request alone on the connection: its four statements, one after the other.\<close>

definition run_alone :: "env \<Rightarrow> task \<Rightarrow> db \<Rightarrow> task \<times> db" where
  "run_alone e k s =
     (case reserve_step (db_fault e 0) (now e) k s of
        (k1, s1) \<Rightarrow>
          (case reserve_step (db_fault e 1) (now e) k1 s1 of
             (k2, s2) \<Rightarrow>
               (case reserve_step (db_fault e 2) (now e) k2 s2 of
                  (k3, s3) \<Rightarrow> reserve_step (db_fault e 3) (now e) k3 s3)))"

section \<open>Schema creation (backend/database.js)\<close>

text \<open>
  The database file as its tables by name, each with its column declarations and its
  rows. \<^verbatim>\<open>CREATE TABLE IF NOT EXISTS\<close> adds an empty table under a name that has none and
  does nothing otherwise; \<^verbatim>\<open>db.serialize\<close> runs the three statements in order.
\<close>

record 'r table =
  columns :: "string list"
  rows :: "'r list"

type_synonym 'r catalog = "string \<rightharpoonup> 'r table"

definition create_table_if_not_exists ::
  "string \<Rightarrow> string list \<Rightarrow> 'r catalog \<Rightarrow> 'r catalog" where
  "create_table_if_not_exists name cols c =
     (case c name of
        Some existing \<Rightarrow> c
      | None \<Rightarrow> c(name \<mapsto> \<lparr>columns = cols, rows = []\<rparr>))"

definition users_columns :: "string list" where
  "users_columns =
     [''id INTEGER PRIMARY KEY AUTOINCREMENT'', ''name TEXT NOT NULL'',
      ''email TEXT UNIQUE NOT NULL'', ''password_hash TEXT NOT NULL'',
      ''role TEXT NOT NULL'', ''created_at DATETIME DEFAULT CURRENT_TIMESTAMP'']"

definition meals_columns :: "string list" where
  "meals_columns =
     [''id INTEGER PRIMARY KEY AUTOINCREMENT'', ''merchant_id INTEGER NOT NULL'',
      ''title TEXT NOT NULL'', ''description TEXT'',
      ''portions_available INTEGER NOT NULL'', ''pickup_time DATETIME NOT NULL'',
      ''created_at DATETIME DEFAULT CURRENT_TIMESTAMP'',
      ''FOREIGN KEY (merchant_id) REFERENCES users(id)'']"

definition reservations_columns :: "string list" where
  "reservations_columns =
     [''id INTEGER PRIMARY KEY AUTOINCREMENT'', ''user_id INTEGER NOT NULL'',
      ''meal_id INTEGER NOT NULL'', ''created_at DATETIME DEFAULT CURRENT_TIMESTAMP'',
      ''FOREIGN KEY (user_id) REFERENCES users(id)'',
      ''FOREIGN KEY (meal_id) REFERENCES meals(id)'']"

definition create_schema :: "'r catalog \<Rightarrow> 'r catalog" where
  "create_schema c =
     create_table_if_not_exists ''reservations'' reservations_columns
       (create_table_if_not_exists ''meals'' meals_columns
          (create_table_if_not_exists ''users'' users_columns c))"

section \<open>Notions of the specification\<close>

text \<open>The invariant of the data model: no meal has a negative number of portions.\<close>

definition portions_nonneg :: "db \<Rightarrow> bool" where
  "portions_nonneg s = (\<forall>m\<in>set (meals s). 0 \<le> portions_available m)"

text \<open>The data model's type of the field as well: a non-negative integer.\<close>

definition portions_natural :: "db \<Rightarrow> bool" where
  "portions_natural s =
     (\<forall>m\<in>set (meals s). portions_available m \<in> \<int> \<and> 0 \<le> portions_available m)"

text \<open>
  A store with other password hashes: every user row keeps all its columns but
  \<^verbatim>\<open>password_hash\<close>, which becomes what \<open>f\<close> gives for the row.
\<close>

definition rehash :: "(user \<Rightarrow> string) \<Rightarrow> db \<Rightarrow> db" where
  "rehash f s = s\<lparr>users := map (\<lambda>u. u\<lparr>password_hash := f u\<rparr>) (users s)\<rparr>"

text \<open>
  The constraints the schema declares on keys: \<^verbatim>\<open>id INTEGER PRIMARY KEY\<close> on users and
  on meals, and \<^verbatim>\<open>FOREIGN KEY (merchant_id) REFERENCES users(id)\<close>.
\<close>

definition users_primary_key :: "db \<Rightarrow> bool" where
  "users_primary_key s = distinct (map user_id (users s))"

definition meals_primary_key :: "db \<Rightarrow> bool" where
  "meals_primary_key s = distinct (map meal_id (meals s))"

definition meals_foreign_key :: "db \<Rightarrow> bool" where
  "meals_foreign_key s = (\<forall>m\<in>set (meals s). merchant_id m \<in> set (map user_id (users s)))"

text \<open>
  The cooldown of the specification: the user holds a reservation whose age at time
  \<open>t\<close> is strictly less than three days.
\<close>

definition in_cooldown :: "db \<Rightarrow> int \<Rightarrow> timestamp \<Rightarrow> bool" where
  "in_cooldown s uid t =
     (\<exists>r\<in>set (reservations s). res_user_id r = uid \<and> t - res_created_at r < three_days)"

text \<open>
  The reservation engine as the specification words it: four checks in a fixed order,
  the first one that fails deciding the error, and the commit when none fails.
\<close>

datatype reserve_error = Forbidden | CooldownActive | NotFound | SoldOut

fun reserve_error_response :: "reserve_error \<Rightarrow> response" where
  "reserve_error_response Forbidden =
     error_response 403 ''Only regular users can reserve meals.''"
| "reserve_error_response CooldownActive =
     error_response 400 ''You can only reserve one meal every 3 days.''"
| "reserve_error_response NotFound = error_response 404 ''Meal not found.''"
| "reserve_error_response SoldOut = error_response 400 ''No portions left for this meal.''"

fun first_failure :: "(bool \<times> 'e) list \<Rightarrow> 'e option" where
  "first_failure [] = None"
| "first_failure ((passes, err) # rest) = (if passes then first_failure rest else Some err)"

definition spec_steps :: "claims \<Rightarrow> int \<Rightarrow> timestamp \<Rightarrow> db \<Rightarrow> (bool \<times> reserve_error) list" where
  "spec_steps u mealId t s =
     [(c_role u = ''user'', Forbidden),
      (\<not> in_cooldown s (c_id u) t, CooldownActive),
      (get_meal s mealId \<noteq> None, NotFound),
      ((case get_meal s mealId of None \<Rightarrow> False | Some m \<Rightarrow> 0 < portions_available m),
       SoldOut)]"

definition spec_commit :: "claims \<Rightarrow> int \<Rightarrow> timestamp \<Rightarrow> db \<Rightarrow> response \<times> db" where
  "spec_commit u mealId t s =
     (let s' = decrement_portions mealId (insert_reservation (c_id u) mealId t s)
      in (reservation_created (last_id s') (c_id u) mealId, s'))"

definition spec_reserve :: "claims \<Rightarrow> int \<Rightarrow> timestamp \<Rightarrow> db \<Rightarrow> response \<times> db" where
  "spec_reserve u mealId t s =
     (case first_failure (spec_steps u mealId t s) of
        Some err \<Rightarrow> (reserve_error_response err, s)
      | None \<Rightarrow> spec_commit u mealId t s)"

text \<open>Whether a JSON value has a member of the given name, at any depth.\<close>

fun mentions_key :: "string \<Rightarrow> json \<Rightarrow> bool" where
  "mentions_key k (JArr xs) = (\<exists>x\<in>set xs. mentions_key k x)"
| "mentions_key k (JObj kvs) = (\<exists>kv\<in>set kvs. fst kv = k \<or> mentions_key k (snd kv))"
| "mentions_key k _ = False"

section \<open>A small store and its clients\<close>

text \<open>
  Concrete libraries, accounts and stores on which the theorems below are run: a
  merchant (id 1) with one meal of one portion, and two users (ids 2 and 3).
\<close>

definition ex_merchant :: claims where
  "ex_merchant = \<lparr>c_id = 1, c_email = ''m@example.org'', c_role = ''merchant''\<rparr>"

definition ex_alice :: claims where
  "ex_alice = \<lparr>c_id = 2, c_email = ''a@example.org'', c_role = ''user''\<rparr>"

definition ex_bob :: claims where
  "ex_bob = \<lparr>c_id = 3, c_email = ''b@example.org'', c_role = ''user''\<rparr>"

definition ex_env :: env where
  "ex_env =
     \<lparr>bcrypt_hash = (\<lambda>p. Some (''$2b$10$'' @ p)),
      bcrypt_compare = (\<lambda>p h. drop 7 h = p),
      jwt_sign = (\<lambda>c. c_role c @ '':'' @ c_email c),
      jwt_verify = (\<lambda>t. if t = ''merchant:m@example.org'' then Some ex_merchant
                         else if t = ''user:a@example.org'' then Some ex_alice
                         else if t = ''user:b@example.org'' then Some ex_bob
                         else None),
      now = 1000000,
      db_fault = (\<lambda>i. False)\<rparr>"

definition ex_users :: "user list" where
  "ex_users =
     [\<lparr>user_id = 1, user_name = ''Mira'', user_email = ''m@example.org'',
       password_hash = ''$2b$10$bread'', user_role = ''merchant'', user_created_at = 100\<rparr>,
      \<lparr>user_id = 2, user_name = ''Alice'', user_email = ''a@example.org'',
       password_hash = ''$2b$10$apple'', user_role = ''user'', user_created_at = 200\<rparr>,
      \<lparr>user_id = 3, user_name = ''Bob'', user_email = ''b@example.org'',
       password_hash = ''$2b$10$berry'', user_role = ''user'', user_created_at = 300\<rparr>]"

definition ex_soup :: meal where
  "ex_soup =
     \<lparr>meal_id = 1, merchant_id = 1, title = ''Soup'', description = [],
      portions_available = 1, pickup_time = ''2026-01-01 18:00:00'',
      meal_created_at = 900000\<rparr>"

definition ex_db :: db where
  "ex_db = \<lparr>users = ex_users, meals = [ex_soup], reservations = [], last_id = 1\<rparr>"

definition ex_meal_body :: "rat \<Rightarrow> body" where
  "ex_meal_body n =
     empty_body\<lparr>b_title := Some ''Stew'', b_portions_available := Some n,
       b_pickup_time := Some ''2026-01-02 12:00:00''\<rparr>"

definition ex_login_body :: "string \<Rightarrow> body" where
  "ex_login_body pw = empty_body\<lparr>b_email := Some ''a@example.org'', b_password := Some pw\<rparr>"

text \<open>Alice's earlier reservation of the given age, in a store of its own.\<close>

definition ex_db_reserved :: "int \<Rightarrow> db" where
  "ex_db_reserved age =
     ex_db\<lparr>reservations :=
       [\<lparr>reservation_id = 1, res_user_id = 2, res_meal_id = 7,
         res_created_at = 1000000 - age\<rparr>]\<rparr>"

text \<open>The same store after the merchant has published a second, later meal.\<close>

definition ex_stew :: meal where
  "ex_stew =
     \<lparr>meal_id = 2, merchant_id = 1, title = ''Stew'', description = ''Lentils'',
      portions_available = 4, pickup_time = ''2026-01-02 12:00:00'',
      meal_created_at = 950000\<rparr>"

definition ex_db_two :: db where
  "ex_db_two = ex_db\<lparr>meals := [ex_soup, ex_stew], last_id := 2\<rparr>"

text \<open>A new account, and the row that registering it adds.\<close>

definition ex_register_body :: body where
  "ex_register_body =
     empty_body\<lparr>b_name := Some ''Carol'', b_email := Some ''c@example.org'',
       b_password := Some ''plum''\<rparr>"

definition ex_carol :: user where
  "ex_carol =
     \<lparr>user_id = 4, user_name = ''Carol'', user_email = ''c@example.org'',
      password_hash = ''$2b$10$plum'', user_role = ''user'', user_created_at = 1000000\<rparr>"

definition ex_carol_login :: "string \<Rightarrow> body" where
  "ex_carol_login pw = empty_body\<lparr>b_email := Some ''c@example.org'', b_password := Some pw\<rparr>"

text \<open>A database file in which only the users table exists, with its three rows.\<close>

definition ex_catalog :: "user catalog" where
  "ex_catalog = [''users'' \<mapsto> \<lparr>columns = users_columns, rows = ex_users\<rparr>]"

definition ex_request :: "route \<Rightarrow> string \<Rightarrow> body \<Rightarrow> request" where
  "ex_request r token b =
     \<lparr>r_route = r, r_authorization = Some (''Bearer '' @ token), r_body = b\<rparr>"

section \<open>Facts about the statements\<close>

lemmas ex_defs = ex_env_def ex_merchant_def ex_alice_def ex_bob_def ex_db_def ex_users_def
  ex_soup_def ex_db_reserved_def ex_meal_body_def ex_login_body_def empty_body_def
  ex_stew_def ex_db_two_def ex_register_body_def ex_carol_def ex_carol_login_def


lemma sort_key_Nil_iff: "sort_key f xs = [] \<longleftrightarrow> xs = []"
  by (metis length_sort length_0_conv)

lemma recent_reservation_None_iff:
  "recent_reservation s uid t = None \<longleftrightarrow> \<not> in_cooldown s uid t"
proof -
  let ?hits = "filter (\<lambda>r. res_user_id r = uid \<and> res_created_at r > t - three_days) (reservations s)"
  have "recent_reservation s uid t = None \<longleftrightarrow> sort_key (\<lambda>r. - res_created_at r) ?hits = []"
    unfolding recent_reservation_def by (cases "sort_key (\<lambda>r. - res_created_at r) ?hits") simp_all
  also have "\<dots> \<longleftrightarrow> ?hits = []"
    by (rule sort_key_Nil_iff)
  also have "\<dots> \<longleftrightarrow> \<not> in_cooldown s uid t"
    by (auto simp: in_cooldown_def filter_empty_conv)
  finally show ?thesis .
qed

lemma reserve_forbidden:
  "c_role u \<noteq> ''user'' \<Longrightarrow> reserve e u mealId s = (reserve_error_response Forbidden, s)"
  by (simp add: reserve_def)

lemma reserve_cooldown:
  "c_role u = ''user'' \<Longrightarrow> \<not> db_fault e 0 \<Longrightarrow> in_cooldown s (c_id u) (now e) \<Longrightarrow>
   reserve e u mealId s = (reserve_error_response CooldownActive, s)"
  using recent_reservation_None_iff[of s "c_id u" "now e"]
  by (auto simp: reserve_def split: option.splits)

lemma reserve_not_found:
  "c_role u = ''user'' \<Longrightarrow> \<not> db_fault e 0 \<Longrightarrow> \<not> in_cooldown s (c_id u) (now e) \<Longrightarrow>
   \<not> db_fault e 1 \<Longrightarrow> get_meal s mealId = None \<Longrightarrow>
   reserve e u mealId s = (reserve_error_response NotFound, s)"
  using recent_reservation_None_iff[of s "c_id u" "now e"]
  by (auto simp: reserve_def split: option.splits)

lemma reserve_sold_out:
  "c_role u = ''user'' \<Longrightarrow> \<not> db_fault e 0 \<Longrightarrow> \<not> in_cooldown s (c_id u) (now e) \<Longrightarrow>
   \<not> db_fault e 1 \<Longrightarrow> get_meal s mealId = Some m \<Longrightarrow> portions_available m \<le> 0 \<Longrightarrow>
   reserve e u mealId s = (reserve_error_response SoldOut, s)"
  using recent_reservation_None_iff[of s "c_id u" "now e"]
  by (auto simp: reserve_def split: option.splits)

lemma reserve_refines_spec:
  assumes "\<not> db_fault e 0" "\<not> db_fault e 1" "\<not> db_fault e 2" "\<not> db_fault e 3"
  shows "reserve e u mealId s = spec_reserve u mealId (now e) s"
proof (cases "c_role u = ''user''")
  case False
  then show ?thesis
    by (simp add: reserve_forbidden spec_reserve_def spec_steps_def)
next
  case role: True
  show ?thesis
  proof (cases "in_cooldown s (c_id u) (now e)")
    case True
    with role assms show ?thesis
      by (simp add: reserve_cooldown spec_reserve_def spec_steps_def)
  next
    case cool: False
    show ?thesis
    proof (cases "get_meal s mealId")
      case None
      with role cool assms show ?thesis
        by (simp add: reserve_not_found spec_reserve_def spec_steps_def)
    next
      case (Some m)
      show ?thesis
      proof (cases "portions_available m \<le> 0")
        case True
        with role cool assms Some show ?thesis
          by (simp add: reserve_sold_out spec_reserve_def spec_steps_def)
      next
        case False
        with role cool assms Some recent_reservation_None_iff[of s "c_id u" "now e"]
        show ?thesis
          by (simp add: reserve_def spec_reserve_def spec_steps_def spec_commit_def Let_def)
      qed
    qed
  qed
qed

section \<open>The reservation engine\<close>

text \<open>
  Claim C4. A reservation request is decided by the role check, the cooldown check, the
  existence check and the availability check, in this order, and the first check that
  fails gives the response and leaves the store as it was: a requester who is not a
  user gets Forbidden whatever the meal and whatever the statements would do; a user
  in cooldown gets CooldownActive whatever the meal and whatever the later statements
  would do; then NotFound, then SoldOut. When no statement faults the handler is the
  ordered step list of the specification followed by the commit.
\<close>

theorem reserve_steps_in_order:
  "(c_role u \<noteq> ''user'' \<longrightarrow>
      reserve e u mealId s = (reserve_error_response Forbidden, s)) \<and>
   (c_role u = ''user'' \<and> \<not> db_fault e 0 \<and> in_cooldown s (c_id u) (now e) \<longrightarrow>
      reserve e u mealId s = (reserve_error_response CooldownActive, s)) \<and>
   (c_role u = ''user'' \<and> \<not> db_fault e 0 \<and> \<not> in_cooldown s (c_id u) (now e) \<and>
    \<not> db_fault e 1 \<and> get_meal s mealId = None \<longrightarrow>
      reserve e u mealId s = (reserve_error_response NotFound, s)) \<and>
   (c_role u = ''user'' \<and> \<not> db_fault e 0 \<and> \<not> in_cooldown s (c_id u) (now e) \<and>
    \<not> db_fault e 1 \<and> get_meal s mealId = Some m \<and> portions_available m \<le> 0 \<longrightarrow>
      reserve e u mealId s = (reserve_error_response SoldOut, s)) \<and>
   (\<not> db_fault e 0 \<and> \<not> db_fault e 1 \<and> \<not> db_fault e 2 \<and> \<not> db_fault e 3 \<longrightarrow>
      reserve e u mealId s = spec_reserve u mealId (now e) s)"
  by (intro conjI impI; (elim conjE)?)
    (simp_all add: reserve_forbidden reserve_cooldown reserve_not_found reserve_sold_out
      reserve_refines_spec)


theorem reserve_steps_in_order_witness:
  "reserve (ex_env\<lparr>db_fault := \<lambda>i. True\<rparr>) ex_merchant 99 ex_db =
     (error_response 403 ''Only regular users can reserve meals.'', ex_db) \<and>
   reserve (ex_env\<lparr>db_fault := \<lambda>i. 0 < i\<rparr>) ex_alice 99 (ex_db_reserved 3600) =
     (error_response 400 ''You can only reserve one meal every 3 days.'', ex_db_reserved 3600) \<and>
   reserve (ex_env\<lparr>db_fault := \<lambda>i. 1 < i\<rparr>) ex_alice 99 ex_db =
     (error_response 404 ''Meal not found.'', ex_db) \<and>
   reserve (ex_env\<lparr>db_fault := \<lambda>i. 1 < i\<rparr>) ex_bob 1
       (ex_db\<lparr>meals := [ex_soup\<lparr>portions_available := 0\<rparr>]\<rparr>) =
     (error_response 400 ''No portions left for this meal.'',
      ex_db\<lparr>meals := [ex_soup\<lparr>portions_available := 0\<rparr>]\<rparr>) \<and>
   reserve ex_env ex_alice 1 ex_db =
     (reservation_created 1 2 1,
      ex_db\<lparr>meals := [ex_soup\<lparr>portions_available := 0\<rparr>],
        reservations := [\<lparr>reservation_id = 1, res_user_id = 2, res_meal_id = 1,
          res_created_at = 1000000\<rparr>]\<rparr>)"
proof -
  have a: "reserve (ex_env\<lparr>db_fault := \<lambda>i. True\<rparr>) ex_merchant 99 ex_db =
     (error_response 403 ''Only regular users can reserve meals.'', ex_db)"
    using reserve_steps_in_order [where u = ex_merchant and e = "ex_env\<lparr>db_fault := \<lambda>i. True\<rparr>" and mealId = 99
        and s = ex_db]
    by (simp add: ex_merchant_def)
  have b: "reserve (ex_env\<lparr>db_fault := \<lambda>i. 0 < i\<rparr>) ex_alice 99 (ex_db_reserved 3600) =
     (error_response 400 ''You can only reserve one meal every 3 days.'', ex_db_reserved 3600)"
    using reserve_steps_in_order
      [where u = ex_alice and e = "ex_env\<lparr>db_fault := \<lambda>i. 0 < i\<rparr>" and mealId = 99
        and s = "ex_db_reserved 3600"]
    by (simp add: ex_alice_def ex_env_def ex_db_reserved_def in_cooldown_def three_days_def)
  have c: "reserve (ex_env\<lparr>db_fault := \<lambda>i. 1 < i\<rparr>) ex_alice 99 ex_db =
     (error_response 404 ''Meal not found.'', ex_db)"
    using reserve_steps_in_order [where u = ex_alice
        and e = "ex_env\<lparr>db_fault := \<lambda>i. 1 < i\<rparr>" and mealId = 99 and s = ex_db]
    by (simp add: ex_alice_def ex_env_def ex_db_def in_cooldown_def get_meal_def ex_soup_def)
  have d: "reserve (ex_env\<lparr>db_fault := \<lambda>i. 1 < i\<rparr>) ex_bob 1
       (ex_db\<lparr>meals := [ex_soup\<lparr>portions_available := 0\<rparr>]\<rparr>) =
     (error_response 400 ''No portions left for this meal.'',
      ex_db\<lparr>meals := [ex_soup\<lparr>portions_available := 0\<rparr>]\<rparr>)"
    using reserve_steps_in_order [where u = ex_bob
        and e = "ex_env\<lparr>db_fault := \<lambda>i. 1 < i\<rparr>" and mealId = 1
        and s = "ex_db\<lparr>meals := [ex_soup\<lparr>portions_available := 0\<rparr>]\<rparr>"
        and m = "ex_soup\<lparr>portions_available := 0\<rparr>"]
    by (simp add: ex_bob_def ex_env_def ex_db_def in_cooldown_def get_meal_def ex_soup_def)
  have e: "reserve ex_env ex_alice 1 ex_db =
     (reservation_created 1 2 1,
      ex_db\<lparr>meals := [ex_soup\<lparr>portions_available := 0\<rparr>],
        reservations := [\<lparr>reservation_id = 1, res_user_id = 2, res_meal_id = 1,
          res_created_at = 1000000\<rparr>]\<rparr>)"
    using reserve_steps_in_order [where u = ex_alice and e = ex_env and mealId = 1
        and s = ex_db]
    by (simp add: ex_alice_def ex_env_def ex_db_def in_cooldown_def get_meal_def ex_soup_def
        spec_reserve_def spec_steps_def spec_commit_def insert_reservation_def
        decrement_portions_def next_id_def)
  from a b c d e show ?thesis by blast
qed


text \<open>
  Claim C5. For a requester with role user whose cooldown query does not fault, the
  request is answered CooldownActive exactly when the user has a reservation whose age
  is strictly less than three days (259200 seconds); when every reservation of the
  user is three days old or older, the request passes the cooldown check.
\<close>

theorem cooldown_boundary_exclusive:
  assumes "c_role u = ''user''" and "\<not> db_fault e 0"
  shows "three_days = 259200 \<and>
    (fst (reserve e u mealId s) = reserve_error_response CooldownActive \<longleftrightarrow>
       (\<exists>r\<in>set (reservations s).
          res_user_id r = c_id u \<and> now e - res_created_at r < three_days)) \<and>
    ((\<forall>r\<in>set (reservations s).
          res_user_id r = c_id u \<longrightarrow> three_days \<le> now e - res_created_at r) \<longrightarrow>
       fst (reserve e u mealId s) \<noteq> reserve_error_response CooldownActive)"
proof -
  have iff: "fst (reserve e u mealId s) = reserve_error_response CooldownActive \<longleftrightarrow>
      in_cooldown s (c_id u) (now e)"
  proof
    assume "in_cooldown s (c_id u) (now e)"
    with assms show "fst (reserve e u mealId s) = reserve_error_response CooldownActive"
      by (simp add: reserve_cooldown)
  next
    assume r: "fst (reserve e u mealId s) = reserve_error_response CooldownActive"
    show "in_cooldown s (c_id u) (now e)"
    proof (rule ccontr)
      assume "\<not> in_cooldown s (c_id u) (now e)"
      then have "recent_reservation s (c_id u) (now e) = None"
        by (simp add: recent_reservation_None_iff)
      with assms r show False
        by (simp add: reserve_def error_response_def reservation_created_def Let_def
            split: option.splits if_splits)
    qed
  qed
  have "three_days = 259200" by (simp add: three_days_def)
  moreover have "(\<forall>r\<in>set (reservations s).
          res_user_id r = c_id u \<longrightarrow> three_days \<le> now e - res_created_at r) \<longrightarrow>
       \<not> in_cooldown s (c_id u) (now e)"
    by (fastforce simp: in_cooldown_def)
  ultimately show ?thesis using iff unfolding in_cooldown_def by blast
qed

theorem cooldown_boundary_exclusive_witness:
  "fst (reserve ex_env ex_alice 1 (ex_db_reserved 259199)) =
     error_response 400 ''You can only reserve one meal every 3 days.'' \<and>
   fst (reserve ex_env ex_alice 1 (ex_db_reserved 259200)) \<noteq>
     error_response 400 ''You can only reserve one meal every 3 days.'' \<and>
   status (fst (reserve ex_env ex_alice 1 (ex_db_reserved 259200))) = 201"
proof -
  have role: "c_role ex_alice = ''user''" and ok: "\<not> db_fault ex_env 0"
    by (simp_all add: ex_alice_def ex_env_def)
  have young: "\<exists>r\<in>set (reservations (ex_db_reserved 259199)).
      res_user_id r = c_id ex_alice \<and> now ex_env - res_created_at r < three_days"
    by (simp add: ex_db_reserved_def ex_alice_def ex_env_def three_days_def)
  have old: "\<forall>r\<in>set (reservations (ex_db_reserved 259200)).
      res_user_id r = c_id ex_alice \<longrightarrow> three_days \<le> now ex_env - res_created_at r"
    by (simp add: ex_db_reserved_def ex_alice_def ex_env_def three_days_def)
  have a: "fst (reserve ex_env ex_alice 1 (ex_db_reserved 259199)) =
     reserve_error_response CooldownActive"
    using cooldown_boundary_exclusive [OF role ok, where mealId = 1
        and s = "ex_db_reserved 259199"] young
    by blast
  have b: "fst (reserve ex_env ex_alice 1 (ex_db_reserved 259200)) \<noteq>
     reserve_error_response CooldownActive"
    using cooldown_boundary_exclusive [OF role ok, where mealId = 1
        and s = "ex_db_reserved 259200"] old
    by blast
  have c: "status (fst (reserve ex_env ex_alice 1 (ex_db_reserved 259200))) = 201"
    by (simp add: reserve_def ex_defs recent_reservation_def three_days_def get_meal_def
        reservation_created_def Let_def)
  from a b c show ?thesis by simp
qed

section \<open>Authorization by role\<close>

lemma ex_tokens:
  "authenticateToken ex_env (Some ''Bearer merchant:m@example.org'') = Inr ex_merchant"
  "authenticateToken ex_env (Some ''Bearer user:a@example.org'') = Inr ex_alice"
  "authenticateToken ex_env (Some ''Bearer user:b@example.org'') = Inr ex_bob"
  by (simp_all add: authenticateToken_def bearer_token_def ex_env_def)

text \<open>
  Claim C6. On both protected routes the role carried by a verified token is checked
  before anything else: POST /meals by a requester whose role is not merchant, and
  POST /meals/:id/reserve by a requester whose role is not user, are answered 403 and
  the store (users, meals, reservations) is left exactly as it was.
\<close>

theorem role_authorization:
  assumes "authenticateToken e (r_authorization req) = Inr u"
  shows "(r_route req = PostMeals \<and> c_role u \<noteq> ''merchant'' \<longrightarrow>
            app e req s = (error_response 403 ''Only merchants can create meals.'', s)) \<and>
         (r_route req = PostReserve mealId \<and> c_role u \<noteq> ''user'' \<longrightarrow>
            app e req s = (error_response 403 ''Only regular users can reserve meals.'', s))"
  using assms by (simp add: app_def create_meal_def reserve_def)

theorem role_authorization_witness:
  "app ex_env (ex_request PostMeals ''user:a@example.org'' (ex_meal_body 5)) ex_db =
     (error_response 403 ''Only merchants can create meals.'', ex_db) \<and>
   app ex_env (ex_request (PostReserve 1) ''merchant:m@example.org'' empty_body) ex_db =
     (error_response 403 ''Only regular users can reserve meals.'', ex_db)"
proof -
  have a: "authenticateToken ex_env
      (r_authorization (ex_request PostMeals ''user:a@example.org'' (ex_meal_body 5))) = Inr ex_alice"
    by (simp add: ex_request_def ex_tokens)
  have b: "authenticateToken ex_env
      (r_authorization (ex_request (PostReserve 1) ''merchant:m@example.org'' empty_body)) = Inr ex_merchant"
    by (simp add: ex_request_def ex_tokens)
  show ?thesis
    using role_authorization [OF a, where s = ex_db]
      role_authorization [OF b, where s = ex_db and mealId = 1]
    by (simp add: ex_request_def ex_alice_def ex_merchant_def)
qed

section \<open>Publishing a meal\<close>

text \<open>
  Claim C10. For a POST /meals request of an authenticated merchant, a
  \<^verbatim>\<open>portions_available\<close> of 0 is answered 400 as a missing field and nothing is stored;
  a negative \<^verbatim>\<open>portions_available\<close> (with title and pickup time present and no storage
  fault) is answered 201 and the meal is stored with the negative number as given.
\<close>

theorem create_meal_zero_rejected_negative_stored:
  assumes "r_route req = PostMeals"
    and "authenticateToken e (r_authorization req) = Inr u"
    and "c_role u = ''merchant''"
  shows "(b_portions_available (r_body req) = Some 0 \<longrightarrow>
            app e req s =
              (error_response 400 ''Title, portions and pickup_time are required.'', s)) \<and>
         (b_portions_available (r_body req) = Some n \<and> n < 0 \<and>
          \<not> falsy_str (b_title (r_body req)) \<and> \<not> falsy_str (b_pickup_time (r_body req)) \<and>
          \<not> db_fault e 0 \<longrightarrow>
            status (fst (app e req s)) = 201 \<and>
            meals (snd (app e req s)) = meals s @
              [\<lparr>meal_id = next_id (map meal_id (meals s)), merchant_id = c_id u,
                title = the (b_title (r_body req)),
                description = or_empty (b_description (r_body req)),
                portions_available = n,
                pickup_time = the (b_pickup_time (r_body req)),
                meal_created_at = now e\<rparr>])"
  using assms by (auto simp: app_def create_meal_def insert_meal_def Let_def)

theorem create_meal_zero_rejected_negative_stored_witness:
  "app ex_env (ex_request PostMeals ''merchant:m@example.org'' (ex_meal_body 0)) ex_db =
     (error_response 400 ''Title, portions and pickup_time are required.'', ex_db) \<and>
   status (fst (app ex_env
     (ex_request PostMeals ''merchant:m@example.org'' (ex_meal_body (- 5))) ex_db)) = 201 \<and>
   meals (snd (app ex_env
     (ex_request PostMeals ''merchant:m@example.org'' (ex_meal_body (- 5))) ex_db)) =
     [ex_soup,
      \<lparr>meal_id = 2, merchant_id = 1, title = ''Stew'', description = [],
       portions_available = - 5, pickup_time = ''2026-01-02 12:00:00'',
       meal_created_at = 1000000\<rparr>]"
proof -
  have r: "r_route (ex_request PostMeals ''merchant:m@example.org'' b) = PostMeals" for b
    by (simp add: ex_request_def)
  have a: "authenticateToken ex_env
      (r_authorization (ex_request PostMeals ''merchant:m@example.org'' b)) = Inr ex_merchant" for b
    by (simp add: ex_request_def ex_tokens)
  have m: "c_role ex_merchant = ''merchant''"
    by (simp add: ex_merchant_def)
  show ?thesis
    using create_meal_zero_rejected_negative_stored
        [OF r [of "ex_meal_body 0"] a [of "ex_meal_body 0"] m, where s = ex_db]
      create_meal_zero_rejected_negative_stored
        [OF r [of "ex_meal_body (- 5)"] a [of "ex_meal_body (- 5)"] m, where s = ex_db
          and n = "- 5"]
    by (simp add: ex_request_def ex_meal_body_def empty_body_def ex_merchant_def ex_env_def
        ex_db_def ex_soup_def next_id_def)
qed

section \<open>Schema creation is idempotent\<close>

lemma create_table_keeps:
  "c k = Some t \<Longrightarrow> create_table_if_not_exists n cols c k = Some t"
  by (cases "c n") (auto simp: create_table_if_not_exists_def)

lemma create_table_defined: "\<exists>t. create_table_if_not_exists n cols c n = Some t"
  by (cases "c n") (simp_all add: create_table_if_not_exists_def)

lemma dom_create_table: "dom (create_table_if_not_exists n cols c) = insert n (dom c)"
  by (cases "c n") (auto simp: create_table_if_not_exists_def)

lemma create_schema_keeps: "c k = Some t \<Longrightarrow> create_schema c k = Some t"
  unfolding create_schema_def by (intro create_table_keeps)

lemma create_schema_noop:
  assumes "c ''users'' = Some tu" and "c ''meals'' = Some tm" and "c ''reservations'' = Some tr"
  shows "create_schema c = c"
proof -
  have "create_table_if_not_exists ''users'' users_columns c = c"
    using assms(1) by (simp add: create_table_if_not_exists_def)
  moreover have "create_table_if_not_exists ''meals'' meals_columns c = c"
    using assms(2) by (simp add: create_table_if_not_exists_def)
  moreover have "create_table_if_not_exists ''reservations'' reservations_columns c = c"
    using assms(3) by (simp add: create_table_if_not_exists_def)
  ultimately show ?thesis
    by (simp only: create_schema_def)
qed

lemma create_schema_defined:
  "\<exists>tu tm tr. create_schema c ''users'' = Some tu \<and> create_schema c ''meals'' = Some tm \<and>
     create_schema c ''reservations'' = Some tr"
proof -
  let ?c1 = "create_table_if_not_exists ''users'' users_columns c"
  let ?c2 = "create_table_if_not_exists ''meals'' meals_columns ?c1"
  obtain tu where tu: "?c1 ''users'' = Some tu"
    using create_table_defined by blast
  obtain tm where tm: "?c2 ''meals'' = Some tm"
    using create_table_defined by blast
  obtain tr where tr: "create_schema c ''reservations'' = Some tr"
    unfolding create_schema_def using create_table_defined by blast
  have "create_schema c ''users'' = Some tu"
    unfolding create_schema_def by (intro create_table_keeps tu)
  moreover have "create_schema c ''meals'' = Some tm"
    unfolding create_schema_def by (intro create_table_keeps tm)
  ultimately show ?thesis using tr by blast
qed

lemma dom_create_schema:
  "dom (create_schema c) = dom c \<union> {''users'', ''meals'', ''reservations''}"
  unfolding create_schema_def dom_create_table by blast

text \<open>
  Claim C9. Running schema creation a second time changes nothing; on any database
  file it leaves every existing table as it is, columns and rows, adds no table other
  than users, meals and reservations, and is a no-op when the three exist.
\<close>

theorem create_schema_idempotent:
  "create_schema (create_schema c) = create_schema c \<and>
   (c name = Some t \<longrightarrow> create_schema c name = Some t) \<and>
   dom (create_schema c) = dom c \<union> {''users'', ''meals'', ''reservations''} \<and>
   ({''users'', ''meals'', ''reservations''} \<subseteq> dom c \<longrightarrow> create_schema c = c)"
proof (intro conjI impI)
  show "create_schema (create_schema c) = create_schema c"
    using create_schema_defined [of c] create_schema_noop [of "create_schema c"] by blast
  show "create_schema c name = Some t" if "c name = Some t"
    using that by (rule create_schema_keeps)
  show "dom (create_schema c) = dom c \<union> {''users'', ''meals'', ''reservations''}"
    by (rule dom_create_schema)
  show "create_schema c = c" if "{''users'', ''meals'', ''reservations''} \<subseteq> dom c"
  proof -
    from that have "''users'' \<in> dom c" "''meals'' \<in> dom c" "''reservations'' \<in> dom c"
      by blast+
    then show ?thesis using create_schema_noop [of c] by blast
  qed
qed

theorem create_schema_idempotent_witness:
  "create_schema (create_schema ex_catalog) = create_schema ex_catalog \<and>
   create_schema ex_catalog ''users'' = Some \<lparr>columns = users_columns, rows = ex_users\<rparr> \<and>
   create_schema ex_catalog ''meals'' = Some \<lparr>columns = meals_columns, rows = []\<rparr> \<and>
   dom (create_schema ex_catalog) = {''users'', ''meals'', ''reservations''} \<and>
   create_schema (create_schema (Map.empty :: user catalog)) = create_schema Map.empty"
proof -
  have u: "ex_catalog ''users'' = Some \<lparr>columns = users_columns, rows = ex_users\<rparr>"
    by (simp add: ex_catalog_def)
  have d: "dom ex_catalog = {''users''}"
    by (simp add: ex_catalog_def)
  have m: "create_schema ex_catalog ''meals'' = Some \<lparr>columns = meals_columns, rows = []\<rparr>"
    by (simp add: create_schema_def create_table_if_not_exists_def ex_catalog_def)
  have e: "dom ex_catalog \<union> {''users'', ''meals'', ''reservations''} =
      {''users'', ''meals'', ''reservations''}"
    unfolding d by blast
  show ?thesis
    using create_schema_idempotent [of ex_catalog "''users''"
        "\<lparr>columns = users_columns, rows = ex_users\<rparr>"]
      create_schema_idempotent [of "Map.empty :: user catalog"] u e m
    by simp
qed

section \<open>Listing meals\<close>

lemma filter_key_unique:
  "distinct (map f xs) \<Longrightarrow> a \<in> set (map f xs) \<Longrightarrow>
   \<exists>x. filter (\<lambda>u. a = f u) xs = [x]"
proof (induction xs)
  case Nil
  then show ?case by simp
next
  case (Cons y ys)
  show ?case
  proof (cases "a = f y")
    case True
    with Cons.prems have "filter (\<lambda>u. a = f u) ys = []"
      by (auto simp: filter_empty_conv)
    with True show ?thesis by simp
  next
    case False
    with Cons show ?thesis by auto
  qed
qed

lemma join_rows_fst:
  assumes "distinct (map user_id us)"
    and "\<forall>m\<in>set ms. merchant_id m \<in> set (map user_id us)"
  shows "map fst (concat (map (\<lambda>m. map (\<lambda>u. (m, user_name u))
            (filter (\<lambda>u. merchant_id m = user_id u) us)) ms)) = ms"
  using assms(2)
proof (induction ms)
  case Nil
  then show ?case by simp
next
  case (Cons m ms)
  then have "merchant_id m \<in> set (map user_id us)" by simp
  with assms(1) obtain x where "filter (\<lambda>u. merchant_id m = user_id u) us = [x]"
    using filter_key_unique [of user_id us "merchant_id m"] by blast
  with Cons show ?case by simp
qed

lemma join_merchant_fst:
  "users_primary_key s \<Longrightarrow> meals_foreign_key s \<Longrightarrow> map fst (join_merchant s) = meals s"
  unfolding users_primary_key_def meals_foreign_key_def join_merchant_def
  by (rule join_rows_fst)

lemma join_merchant_name:
  "row \<in> set (join_merchant s) \<Longrightarrow>
   \<exists>u\<in>set (users s). user_id u = merchant_id (fst row) \<and> snd row = user_name u"
  by (auto simp: join_merchant_def)

lemma list_meals_sorted:
  "sorted_wrt (\<lambda>a b. meal_created_at (fst b) \<le> meal_created_at (fst a)) (list_meals s)"
proof -
  have "sorted (map (\<lambda>row. - meal_created_at (fst row)) (list_meals s))"
    unfolding list_meals_def by (rule sorted_sort_key)
  then show ?thesis
    by (simp add: sorted_map)
qed

text \<open>
  Claim C8. On a store that satisfies the key constraints of its schema, GET /meals,
  with or without an Authorization header, answers 200 with an array that has one
  object per meal, every meal exactly once: the object carries the meal's columns
  (\<^verbatim>\<open>id\<close>, \<^verbatim>\<open>merchant_id\<close>, \<^verbatim>\<open>title\<close>, \<^verbatim>\<open>description\<close>, \<^verbatim>\<open>portions_available\<close>, \<^verbatim>\<open>pickup_time\<close>,
  \<^verbatim>\<open>created_at\<close>) and, as \<^verbatim>\<open>merchant_name\<close>, the name of the user the meal's \<^verbatim>\<open>merchant_id\<close>
  refers to; the objects are ordered by \<^verbatim>\<open>created_at\<close> descending.
\<close>

theorem get_meals_newest_first:
  assumes "r_route req = GetMeals" and "\<not> db_fault e 0"
    and "users_primary_key s" and "meals_foreign_key s"
  shows "app e req s =
      (\<lparr>status = 200,
        payload = JArr (map (\<lambda>row.
          JObj [(''id'', JNum (of_int (meal_id (fst row)))),
            (''merchant_id'', JNum (of_int (merchant_id (fst row)))),
            (''title'', JStr (title (fst row))),
            (''description'', JStr (description (fst row))),
            (''portions_available'', JNum (portions_available (fst row))),
            (''pickup_time'', JStr (pickup_time (fst row))),
            (''created_at'', JNum (of_int (meal_created_at (fst row)))),
            (''merchant_name'', JStr (snd row))]) (list_meals s))\<rparr>, s) \<and>
    app e (req\<lparr>r_authorization := None\<rparr>) s = app e req s \<and>
    mset (map fst (list_meals s)) = mset (meals s) \<and>
    (\<forall>row\<in>set (list_meals s). \<exists>u\<in>set (users s).
        user_id u = merchant_id (fst row) \<and> snd row = user_name u) \<and>
    sorted_wrt (\<lambda>a b. meal_created_at (fst b) \<le> meal_created_at (fst a)) (list_meals s)"
proof (intro conjI)
  have "meal_row_json = (\<lambda>row.
          JObj [(''id'', JNum (of_int (meal_id (fst row)))),
            (''merchant_id'', JNum (of_int (merchant_id (fst row)))),
            (''title'', JStr (title (fst row))),
            (''description'', JStr (description (fst row))),
            (''portions_available'', JNum (portions_available (fst row))),
            (''pickup_time'', JStr (pickup_time (fst row))),
            (''created_at'', JNum (of_int (meal_created_at (fst row)))),
            (''merchant_name'', JStr (snd row))])"
    by (rule ext) (simp add: meal_row_json_def Let_def)
  then show "app e req s =
      (\<lparr>status = 200,
        payload = JArr (map (\<lambda>row.
          JObj [(''id'', JNum (of_int (meal_id (fst row)))),
            (''merchant_id'', JNum (of_int (merchant_id (fst row)))),
            (''title'', JStr (title (fst row))),
            (''description'', JStr (description (fst row))),
            (''portions_available'', JNum (portions_available (fst row))),
            (''pickup_time'', JStr (pickup_time (fst row))),
            (''created_at'', JNum (of_int (meal_created_at (fst row)))),
            (''merchant_name'', JStr (snd row))]) (list_meals s))\<rparr>, s)"
    using assms(1,2) by (simp add: app_def get_meals_def)
  show "app e (req\<lparr>r_authorization := None\<rparr>) s = app e req s"
    using assms(1) by (simp add: app_def)
  have "mset (map fst (list_meals s)) = mset (map fst (join_merchant s))"
    by (simp add: list_meals_def)
  then show "mset (map fst (list_meals s)) = mset (meals s)"
    using assms(3,4) by (simp add: join_merchant_fst)
  show "\<forall>row\<in>set (list_meals s). \<exists>u\<in>set (users s).
        user_id u = merchant_id (fst row) \<and> snd row = user_name u"
    using join_merchant_name [of _ s] by (simp add: list_meals_def)
  show "sorted_wrt (\<lambda>a b. meal_created_at (fst b) \<le> meal_created_at (fst a)) (list_meals s)"
    by (rule list_meals_sorted)
qed

theorem get_meals_newest_first_witness:
  "app ex_env \<lparr>r_route = GetMeals, r_authorization = None, r_body = empty_body\<rparr> ex_db_two =
     (\<lparr>status = 200,
       payload = JArr
         [JObj [(''id'', JNum 2), (''merchant_id'', JNum 1), (''title'', JStr ''Stew''),
            (''description'', JStr ''Lentils''), (''portions_available'', JNum 4),
            (''pickup_time'', JStr ''2026-01-02 12:00:00''), (''created_at'', JNum 950000),
            (''merchant_name'', JStr ''Mira'')],
          JObj [(''id'', JNum 1), (''merchant_id'', JNum 1), (''title'', JStr ''Soup''),
            (''description'', JStr []), (''portions_available'', JNum 1),
            (''pickup_time'', JStr ''2026-01-01 18:00:00''), (''created_at'', JNum 900000),
            (''merchant_name'', JStr ''Mira'')]]\<rparr>,
      ex_db_two) \<and>
   list_meals ex_db_two = [(ex_stew, ''Mira''), (ex_soup, ''Mira'')] \<and>
   mset (map fst (list_meals ex_db_two)) = mset [ex_soup, ex_stew]"
proof -
  have r: "r_route \<lparr>r_route = GetMeals, r_authorization = None, r_body = empty_body\<rparr> = GetMeals"
    by simp
  have f: "\<not> db_fault ex_env 0"
    by (simp add: ex_env_def)
  have pk: "users_primary_key ex_db_two"
    by (simp add: users_primary_key_def ex_db_two_def ex_db_def ex_users_def)
  have fk: "meals_foreign_key ex_db_two"
    by (simp add: meals_foreign_key_def ex_db_two_def ex_db_def ex_users_def ex_soup_def
        ex_stew_def)
  have l: "list_meals ex_db_two = [(ex_stew, ''Mira''), (ex_soup, ''Mira'')]"
    by (simp add: list_meals_def join_merchant_def ex_db_two_def ex_db_def ex_users_def
        ex_soup_def ex_stew_def)
  have m: "meals ex_db_two = [ex_soup, ex_stew]"
    by (simp add: ex_db_two_def)
  have stew: "meal_id ex_stew = 2" "merchant_id ex_stew = 1" "title ex_stew = ''Stew''"
    "description ex_stew = ''Lentils''" "portions_available ex_stew = 4"
    "pickup_time ex_stew = ''2026-01-02 12:00:00''" "meal_created_at ex_stew = 950000"
    by (simp_all add: ex_stew_def)
  have soup: "meal_id ex_soup = 1" "merchant_id ex_soup = 1" "title ex_soup = ''Soup''"
    "description ex_soup = []" "portions_available ex_soup = 1"
    "pickup_time ex_soup = ''2026-01-01 18:00:00''" "meal_created_at ex_soup = 900000"
    by (simp_all add: ex_soup_def)
  show ?thesis
    using get_meals_newest_first [OF r f pk fk] unfolding l m by (simp add: stew soup)
qed

section \<open>Registration and login\<close>

lemma find_unique_key:
  "distinct (map f xs) \<Longrightarrow> x \<in> set xs \<Longrightarrow> find (\<lambda>u. f u = f x) xs = Some x"
proof (induction xs)
  case Nil
  then show ?case by simp
next
  case (Cons y ys)
  then show ?case by (cases "y = x") force+
qed

lemma login_no_hash: "\<not> mentions_key ''password_hash'' (payload (login e b s))"
  by (simp add: login_def error_response_def Let_def split: option.splits)

lemma register_no_hash: "\<not> mentions_key ''password_hash'' (payload (fst (register e b s)))"
  by (simp add: register_def error_response_def Let_def split: option.splits sum.splits dberr.splits)

lemma find_rehash:
  "find (\<lambda>u. user_email u = em) (map (\<lambda>u. u\<lparr>password_hash := f u\<rparr>) us) =
     map_option (\<lambda>u. u\<lparr>password_hash := f u\<rparr>) (find (\<lambda>u. user_email u = em) us)"
  by (induction us) simp_all

lemma login_rehash:
  assumes "\<forall>p v. b_password b = Some p \<and> v \<in> set (users s) \<longrightarrow>
      bcrypt_compare e p (f v) = bcrypt_compare e p (password_hash v)"
  shows "login e b (rehash f s) = login e b s"
proof (cases "falsy_str (b_email b) \<or> falsy_str (b_password b) \<or> db_fault e 0")
  case True
  then show ?thesis by (auto simp: login_def)
next
  case False
  then obtain p where p: "b_password b = Some p"
    by (cases "b_password b") auto
  have look: "find_user_by_email (rehash f s) (the (b_email b)) =
      map_option (\<lambda>u. u\<lparr>password_hash := f u\<rparr>) (find_user_by_email s (the (b_email b)))"
    by (simp add: find_user_by_email_def rehash_def find_rehash)
  show ?thesis
  proof (cases "find_user_by_email s (the (b_email b))")
    case None
    with False look show ?thesis by (simp add: login_def)
  next
    case (Some v)
    then have "v \<in> set (users s)"
      by (auto simp: find_user_by_email_def find_Some_iff)
    with assms p have "bcrypt_compare e p (f v) = bcrypt_compare e p (password_hash v)"
      by blast
    with False look Some p show ?thesis by (simp add: login_def)
  qed
qed

lemma register_rehash:
  assumes "\<forall>p. (g p = None) = (bcrypt_hash e p = None)"
  shows "fst (register (e\<lparr>bcrypt_hash := g\<rparr>) b (rehash f s)) = fst (register e b s)"
proof (cases "falsy_str (b_name b) \<or> falsy_str (b_email b) \<or> falsy_str (b_password b)")
  case True
  then show ?thesis by (auto simp: register_def)
next
  case False
  have same: "map user_email (users (rehash f s)) = map user_email (users s)"
    "map user_id (users (rehash f s)) = map user_id (users s)"
    by (simp_all add: rehash_def comp_def)
  show ?thesis
  proof (cases "bcrypt_hash e (the (b_password b))")
    case None
    with assms have "g (the (b_password b)) = None" by simp
    with None False show ?thesis by (simp add: register_def)
  next
    case (Some h)
    with assms obtain h' where "g (the (b_password b)) = Some h'"
      by (cases "g (the (b_password b))") auto
    with Some False show ?thesis
      by (simp add: register_def insert_user_def Let_def same del: set_map)
  qed
qed

text \<open>
  Claim C7. For a registered user, a login with that user's email and a supplied
  password succeeds (200) exactly when bcrypt's comparison accepts the supplied
  password against the stored \<^verbatim>\<open>password_hash\<close>. No response of login or of register
  carries a password hash: none has a member named \<^verbatim>\<open>password_hash\<close>, at any depth;
  the response of login stays the same when the stored hashes are replaced by any
  other strings on which the comparison gives the same answers, so that it tells of
  the hashes nothing but whether the password matched; and the response of register
  stays the same whatever hash bcrypt returns and whatever hashes are stored. The
  emails are unique, as the schema declares, the email is not empty, as register
  requires, and the empty password is one that bcrypt does not accept for the stored
  hash.
\<close>

theorem login_iff_password_matches:
  assumes "u \<in> set (users s)" and "distinct (map user_email (users s))"
    and "b_email b = Some (user_email u)" and "user_email u \<noteq> []"
    and "b_password b = Some pw"
    and "pw = [] \<longrightarrow> \<not> bcrypt_compare e pw (password_hash u)"
    and "\<not> db_fault e 0"
  shows "(status (login e b s) = 200 \<longleftrightarrow> bcrypt_compare e pw (password_hash u)) \<and>
    \<not> mentions_key ''password_hash'' (payload (login e' b' s')) \<and>
    \<not> mentions_key ''password_hash'' (payload (fst (register e' b' s'))) \<and>
    ((\<forall>p v. b_password b' = Some p \<and> v \<in> set (users s') \<longrightarrow>
         bcrypt_compare e' p (f v) = bcrypt_compare e' p (password_hash v)) \<longrightarrow>
       login e' b' (rehash f s') = login e' b' s') \<and>
    ((\<forall>p. (g p = None) = (bcrypt_hash e' p = None)) \<longrightarrow>
       fst (register (e'\<lparr>bcrypt_hash := g\<rparr>) b' (rehash f s')) = fst (register e' b' s'))"
proof -
  have "find_user_by_email s (user_email u) = Some u"
    unfolding find_user_by_email_def using assms(2,1) by (rule find_unique_key)
  with assms(3-7)
  have "status (login e b s) = 200 \<longleftrightarrow> bcrypt_compare e pw (password_hash u)"
    by (auto simp: login_def error_response_def Let_def)
  then show ?thesis
    using login_no_hash register_no_hash login_rehash [of b' s' e' f]
      register_rehash [of g e' b' f s']
    by blast
qed

theorem login_iff_password_matches_witness:
  "snd (register ex_env ex_register_body ex_db) =
     ex_db\<lparr>users := ex_users @ [ex_carol], last_id := 4\<rparr> \<and>
   status (login ex_env (ex_carol_login ''plum'') (snd (register ex_env ex_register_body ex_db))) = 200 \<and>
   status (login ex_env (ex_carol_login ''pear'') (snd (register ex_env ex_register_body ex_db))) \<noteq> 200 \<and>
   status (login ex_env (ex_carol_login []) (snd (register ex_env ex_register_body ex_db))) \<noteq> 200 \<and>
   login ex_env (ex_carol_login ''plum'')
     (rehash (\<lambda>v. if user_id v = 4 then ''$2a$12$plum'' else ''redacted'')
        (snd (register ex_env ex_register_body ex_db))) =
   login ex_env (ex_carol_login ''plum'') (snd (register ex_env ex_register_body ex_db)) \<and>
   fst (register (ex_env\<lparr>bcrypt_hash := \<lambda>p. Some ''another hash''\<rparr>) ex_register_body
     (rehash (\<lambda>v. ''redacted'') ex_db)) =
   fst (register ex_env ex_register_body ex_db)"
proof -
  let ?s = "snd (register ex_env ex_register_body ex_db)"
  let ?f = "\<lambda>v. if user_id v = 4 then ''$2a$12$plum'' else ''redacted''"
  have s: "?s = ex_db\<lparr>users := ex_users @ [ex_carol], last_id := 4\<rparr>"
    by (simp add: register_def insert_user_def ex_env_def ex_register_body_def empty_body_def
        ex_db_def ex_users_def ex_carol_def next_id_def Let_def)
  have mem: "ex_carol \<in> set (users ?s)"
    unfolding s by simp
  have uniq: "distinct (map user_email (users ?s))"
    unfolding s by (simp add: ex_users_def ex_carol_def)
  have em: "b_email (ex_carol_login pw) = Some (user_email ex_carol)"
    and ne: "user_email ex_carol \<noteq> []"
    and pw: "b_password (ex_carol_login pw) = Some pw" for pw
    by (simp_all add: ex_carol_login_def ex_carol_def empty_body_def)
  have cmp: "bcrypt_compare ex_env pw (password_hash ex_carol) \<longleftrightarrow> pw = ''plum''" for pw
    by (auto simp: ex_env_def ex_carol_def)
  have ok: "\<not> db_fault ex_env 0"
    by (simp add: ex_env_def)
  have same: "\<forall>p v. b_password (ex_carol_login ''plum'') = Some p \<and> v \<in> set (users ?s) \<longrightarrow>
      bcrypt_compare ex_env p (?f v) = bcrypt_compare ex_env p (password_hash v)"
    unfolding s by (auto simp: pw ex_env_def ex_db_def ex_users_def ex_carol_def)
  have hashes: "\<forall>p. ((\<lambda>p. Some ''another hash'') p = None) = (bcrypt_hash ex_env p = None)"
    by (simp add: ex_env_def)
  note T = login_iff_password_matches [OF mem uniq em ne pw _ ok, where e' = ex_env
      and b' = "ex_carol_login ''plum''" and s' = ?s and f = ?f]
  have L: "status (login ex_env (ex_carol_login pw) ?s) = 200 \<longleftrightarrow> pw = ''plum''"
    if "pw = [] \<longrightarrow> \<not> bcrypt_compare ex_env pw (password_hash ex_carol)" for pw
    using T [of pw] that cmp by blast
  have a: "status (login ex_env (ex_carol_login ''plum'') ?s) = 200"
    using L [of "''plum''"] by simp
  have b: "status (login ex_env (ex_carol_login ''pear'') ?s) \<noteq> 200"
    using L [of "''pear''"] by simp
  have c: "status (login ex_env (ex_carol_login []) ?s) \<noteq> 200"
    using L [of "[]"] cmp [of "[]"] by simp
  have d: "login ex_env (ex_carol_login ''plum'') (rehash ?f ?s) =
      login ex_env (ex_carol_login ''plum'') ?s"
    using T [of "''plum''"] same cmp by blast
  have e: "fst (register (ex_env\<lparr>bcrypt_hash := \<lambda>p. Some ''another hash''\<rparr>) ex_register_body
     (rehash (\<lambda>v. ''redacted'') ex_db)) = fst (register ex_env ex_register_body ex_db)"
    using login_iff_password_matches [OF mem uniq em [of "''plum''"] ne pw [of "''plum''"] _ ok,
        where g = "\<lambda>p. Some ''another hash''" and e' = ex_env
        and b' = ex_register_body and s' = ex_db and f = "\<lambda>v. ''redacted''"]
      hashes cmp
    by blast
  from s a b c d e show ?thesis by blast
qed

section \<open>The portions invariant\<close>

lemma fold_max_ge: "(a::int) \<le> fold max xs a"
proof (induction xs arbitrary: a)
  case Nil
  then show ?case by simp
next
  case (Cons x xs)
  have "a \<le> max x a" by simp
  also have "\<dots> \<le> fold max xs (max x a)" by (rule Cons.IH)
  finally show ?case by simp
qed

lemma fold_max_member: "(x::int) \<in> set xs \<Longrightarrow> x \<le> fold max xs a"
proof (induction xs arbitrary: a)
  case Nil
  then show ?case by simp
next
  case (Cons y ys)
  show ?case
  proof (cases "x = y")
    case True
    have "x \<le> max y a" using True by simp
    also have "\<dots> \<le> fold max ys (max y a)" by (rule fold_max_ge)
    finally show ?thesis by simp
  next
    case False
    with Cons.prems have "x \<in> set ys" by simp
    then show ?thesis using Cons.IH by simp
  qed
qed

lemma next_id_fresh: "next_id ids \<notin> set ids"
proof
  assume "next_id ids \<in> set ids"
  then have "next_id ids \<le> fold max ids 0" by (rule fold_max_member)
  then show False by (simp add: next_id_def)
qed

lemma natural_pred:
  assumes "(q::rat) \<in> \<int>" and "0 < q"
  shows "q - 1 \<in> \<int>" and "0 \<le> q - 1"
proof -
  from assms(1) obtain k :: int where k: "q = of_int k"
    by (auto elim: Ints_cases)
  with assms(2) have "1 \<le> k" by simp
  then have "(1::rat) \<le> of_int k" by (metis of_int_1_le_iff)
  with k show "0 \<le> q - 1" by simp
  from assms(1) show "q - 1 \<in> \<int>" by simp
qed

lemma insert_meal_invariants:
  assumes "portions_natural s" and "meals_primary_key s" and "p \<in> \<int>" and "0 \<le> p"
  shows "portions_natural (insert_meal mid t d p pt ts s)"
    and "meals_primary_key (insert_meal mid t d p pt ts s)"
  using assms next_id_fresh [of "map meal_id (meals s)"]
  by (auto simp: portions_natural_def meals_primary_key_def insert_meal_def Let_def)

lemma get_meal_unique:
  assumes "meals_primary_key s" and "get_meal s i = Some m" and "x \<in> set (meals s)"
    and "meal_id x = i"
  shows "x = m"
proof -
  from assms(2) have "m \<in> set (meals s)" and "meal_id m = i"
    by (auto simp: get_meal_def find_Some_iff)
  moreover from assms(1) have "inj_on meal_id (set (meals s))"
    by (simp add: meals_primary_key_def distinct_map)
  ultimately show ?thesis using assms(3,4) by (auto dest: inj_onD)
qed

lemma decrement_invariants:
  assumes "portions_natural s" and "meals_primary_key s" and "get_meal s i = Some m"
    and "0 < portions_available m"
  shows "portions_natural (decrement_portions i s)"
    and "meals_primary_key (decrement_portions i s)"
proof -
  show "portions_natural (decrement_portions i s)"
    unfolding portions_natural_def
  proof
    fix y
    assume "y \<in> set (meals (decrement_portions i s))"
    then obtain x where x: "x \<in> set (meals s)"
      and y: "y = (if meal_id x = i
                   then x\<lparr>portions_available := portions_available x - 1\<rparr> else x)"
      by (auto simp: decrement_portions_def)
    from assms(1) x have nat: "portions_available x \<in> \<int>" "0 \<le> portions_available x"
      by (simp_all add: portions_natural_def)
    show "portions_available y \<in> \<int> \<and> 0 \<le> portions_available y"
    proof (cases "meal_id x = i")
      case True
      with assms(2,3) x have "x = m" by (simp add: get_meal_unique)
      with assms(4) have "0 < portions_available x" by simp
      with nat(1) have "portions_available x - 1 \<in> \<int>" "0 \<le> portions_available x - 1"
        by (rule natural_pred)+
      with y True show ?thesis by simp
    next
      case False
      with nat y show ?thesis by simp
    qed
  qed
  have "map meal_id (meals (decrement_portions i s)) = map meal_id (meals s)"
    by (simp add: decrement_portions_def comp_def if_distrib [of meal_id] cong: if_cong)
  with assms(2) show "meals_primary_key (decrement_portions i s)"
    by (simp add: meals_primary_key_def)
qed

lemma meals_insert_reservation [simp]: "meals (insert_reservation uid mid ts s) = meals s"
  by (simp add: insert_reservation_def Let_def)

lemma get_meal_insert_reservation [simp]:
  "get_meal (insert_reservation uid mid ts s) i = get_meal s i"
  by (simp add: get_meal_def)

lemma reserve_outcome:
  "snd (reserve e u mealId s) = s \<or>
   (\<exists>m. get_meal s mealId = Some m \<and> 0 < portions_available m \<and> db_fault e 3 \<and>
      snd (reserve e u mealId s) = insert_reservation (c_id u) mealId (now e) s) \<or>
   (\<exists>m. get_meal s mealId = Some m \<and> 0 < portions_available m \<and>
      snd (reserve e u mealId s) =
        decrement_portions mealId (insert_reservation (c_id u) mealId (now e) s))"
proof (cases "c_role u = ''user'' \<and> \<not> db_fault e 0 \<and> \<not> db_fault e 1 \<and> \<not> db_fault e 2")
  case False
  then consider "c_role u \<noteq> ''user''" | "db_fault e 0" | "db_fault e 1" | "db_fault e 2"
    by blast
  then have "snd (reserve e u mealId s) = s"
    by cases (simp_all add: reserve_def Let_def split: option.splits)
  then show ?thesis by simp
next
  case ok: True
  show ?thesis
  proof (cases "recent_reservation s (c_id u) (now e)")
    case (Some r)
    with ok show ?thesis by (simp add: reserve_def)
  next
    case None
    show ?thesis
    proof (cases "get_meal s mealId")
      case no_meal: None
      with ok None show ?thesis by (simp add: reserve_def)
    next
      case (Some m)
      show ?thesis
      proof (cases "portions_available m \<le> 0")
        case True
        with ok None Some show ?thesis by (simp add: reserve_def)
      next
        case False
        with ok None Some show ?thesis
          by (cases "db_fault e 3") (simp_all add: reserve_def Let_def)
      qed
    qed
  qed
qed

lemma reserve_meals:
  "meals (snd (reserve e u mealId s)) = meals s \<or>
   (\<exists>m. get_meal s mealId = Some m \<and> 0 < portions_available m \<and>
      snd (reserve e u mealId s) =
        decrement_portions mealId (insert_reservation (c_id u) mealId (now e) s))"
  using reserve_outcome [of e u mealId s] by (elim disjE exE conjE) simp_all

lemma reserve_invariants:
  assumes "portions_natural s" and "meals_primary_key s"
  shows "portions_natural (snd (reserve e u mealId s)) \<and>
         meals_primary_key (snd (reserve e u mealId s))"
proof -
  let ?s1 = "insert_reservation (c_id u) mealId (now e) s"
  from reserve_meals [of e u mealId s] show ?thesis
  proof
    assume "meals (snd (reserve e u mealId s)) = meals s"
    with assms show ?thesis by (simp add: portions_natural_def meals_primary_key_def)
  next
    assume "\<exists>m. get_meal s mealId = Some m \<and> 0 < portions_available m \<and>
      snd (reserve e u mealId s) = decrement_portions mealId ?s1"
    then obtain m where m: "get_meal s mealId = Some m" "0 < portions_available m"
      and eq: "snd (reserve e u mealId s) = decrement_portions mealId ?s1"
      by blast
    have "portions_natural ?s1" "meals_primary_key ?s1" "get_meal ?s1 mealId = Some m"
      using assms m by (simp_all add: portions_natural_def meals_primary_key_def)
    with m(2) show ?thesis
      unfolding eq by (simp add: decrement_invariants)
  qed
qed

lemma register_meals: "meals (snd (register e b s)) = meals s"
  by (auto simp: register_def insert_user_def Let_def split: option.splits sum.splits dberr.splits)

lemma create_meal_invariants:
  assumes "portions_natural s" and "meals_primary_key s"
    and "\<forall>q. b_portions_available b = Some q \<longrightarrow> q \<in> \<int> \<and> 0 \<le> q"
  shows "portions_natural (snd (create_meal e u b s)) \<and>
         meals_primary_key (snd (create_meal e u b s))"
proof (cases "snd (create_meal e u b s) = s")
  case True
  with assms show ?thesis by simp
next
  case False
  then have eq: "snd (create_meal e u b s) =
      insert_meal (c_id u) (the (b_title b)) (or_empty (b_description b))
        (the (b_portions_available b)) (the (b_pickup_time b)) (now e) s"
    and "\<not> falsy_num (b_portions_available b)"
    by (auto simp: create_meal_def Let_def split: if_splits)
  then obtain q where "b_portions_available b = Some q"
    by (cases "b_portions_available b") auto
  with assms(3) have "the (b_portions_available b) \<in> \<int>" "0 \<le> the (b_portions_available b)"
    by simp_all
  with assms(1,2) show ?thesis
    unfolding eq by (simp add: insert_meal_invariants)
qed

lemma portions_natural_nonneg: "portions_natural s \<Longrightarrow> portions_nonneg s"
  by (simp add: portions_natural_def portions_nonneg_def)

text \<open>
  Claim C2, as the code has it. On a store in which every meal's
  \<^verbatim>\<open>portions_available\<close> is a non-negative integer and meal ids are distinct (the primary
  key), every request handled on its own leaves both properties in place, so that no
  \<^verbatim>\<open>portions_available\<close> is negative afterwards, provided that the \<^verbatim>\<open>portions_available\<close>
  of a POST /meals request, a JSON number, is a non-negative integer; this covers
  register, login, GET /meals, POST /meals and reserve, with or without storage
  faults. A reservation leaves the meals as they were or decrements by one the meal of
  the requested id, whose \<^verbatim>\<open>portions_available\<close> was strictly positive.
\<close>

theorem portions_natural_preserved:
  assumes "portions_natural s" and "meals_primary_key s"
    and "r_route req = PostMeals \<longrightarrow>
           (\<forall>q. b_portions_available (r_body req) = Some q \<longrightarrow> q \<in> \<int> \<and> 0 \<le> q)"
  shows "portions_natural (snd (app e req s)) \<and> portions_nonneg (snd (app e req s)) \<and>
    meals_primary_key (snd (app e req s)) \<and>
    (meals (snd (reserve e u mealId s)) = meals s \<or>
     (\<exists>m. get_meal s mealId = Some m \<and> 0 < portions_available m \<and>
        meals (snd (reserve e u mealId s)) =
          map (\<lambda>x. if meal_id x = mealId
                    then x\<lparr>portions_available := portions_available x - 1\<rparr> else x)
            (meals s)))"
proof -
  have inv: "portions_natural (snd (app e req s)) \<and> meals_primary_key (snd (app e req s))"
  proof (cases "r_route req")
    case GetRoot
    with assms show ?thesis by (simp add: app_def)
  next
    case PostRegister
    with assms show ?thesis
      by (simp add: app_def register_meals portions_natural_def meals_primary_key_def)
  next
    case PostLogin
    with assms show ?thesis by (simp add: app_def)
  next
    case PostMeals
    with assms create_meal_invariants [of s "r_body req" e] show ?thesis
      by (auto simp: app_def split: sum.splits)
  next
    case GetMeals
    with assms show ?thesis by (simp add: app_def)
  next
    case (PostReserve i)
    with assms reserve_invariants [of s e _ i] show ?thesis
      by (auto simp: app_def split: sum.splits)
  qed
  then have "portions_nonneg (snd (app e req s))"
    by (simp add: portions_natural_nonneg)
  moreover have "meals (snd (reserve e u mealId s)) = meals s \<or>
     (\<exists>m. get_meal s mealId = Some m \<and> 0 < portions_available m \<and>
        meals (snd (reserve e u mealId s)) =
          map (\<lambda>x. if meal_id x = mealId
                    then x\<lparr>portions_available := portions_available x - 1\<rparr> else x)
            (meals s))"
    using reserve_meals [of e u mealId s] by (auto simp: decrement_portions_def)
  ultimately show ?thesis using inv by blast
qed

theorem portions_natural_preserved_witness:
  "portions_natural (snd (app ex_env
     (ex_request PostMeals ''merchant:m@example.org'' (ex_meal_body 5)) ex_db)) \<and>
   portions_nonneg (snd (app ex_env
     (ex_request (PostReserve 1) ''user:a@example.org'' empty_body) ex_db)) \<and>
   meals (snd (reserve ex_env ex_alice 1 ex_db)) = [ex_soup\<lparr>portions_available := 0\<rparr>]"
proof -
  have inv: "portions_natural ex_db" and pk: "meals_primary_key ex_db"
    by (simp_all add: portions_natural_def meals_primary_key_def ex_db_def ex_soup_def)
  have h1: "r_route (ex_request PostMeals ''merchant:m@example.org'' (ex_meal_body 5)) = PostMeals
      \<longrightarrow> (\<forall>q. b_portions_available
             (r_body (ex_request PostMeals ''merchant:m@example.org'' (ex_meal_body 5))) = Some q
           \<longrightarrow> q \<in> \<int> \<and> 0 \<le> q)"
    by (simp add: ex_request_def ex_meal_body_def empty_body_def)
  have h2: "r_route (ex_request (PostReserve 1) ''user:a@example.org'' empty_body) = PostMeals
      \<longrightarrow> (\<forall>q. b_portions_available
             (r_body (ex_request (PostReserve 1) ''user:a@example.org'' empty_body)) = Some q
           \<longrightarrow> q \<in> \<int> \<and> 0 \<le> q)"
    by (simp add: ex_request_def)
  have m: "meals (snd (reserve ex_env ex_alice 1 ex_db)) = [ex_soup\<lparr>portions_available := 0\<rparr>]"
    by (simp add: reserve_def ex_env_def ex_alice_def ex_db_def ex_soup_def
        recent_reservation_def get_meal_def insert_reservation_def decrement_portions_def
        Let_def)
  show ?thesis
    using portions_natural_preserved [OF inv pk h1, where e = ex_env]
      portions_natural_preserved [OF inv pk h2, where e = ex_env] m
    by blast
qed

text \<open>
  Claim C2 as stated fails in two ways. POST /meals checks that \<^verbatim>\<open>portions_available\<close> is
  present, not its sign: a merchant's request with \<^verbatim>\<open>portions_available = -5\<close> takes a
  store in which no count is negative to one that has a negative count. Nor does it
  check that the number is an integer: a request with \<^verbatim>\<open>portions_available = 0.5\<close> is
  answered 201 and stored, and one reservation of that meal, on its own, passes the
  sold-out check and leaves the count at -0.5.
\<close>

theorem portions_nonneg_not_preserved_counterexample:
  "portions_nonneg ex_db \<and>
   \<not> portions_nonneg (snd (app ex_env
       (ex_request PostMeals ''merchant:m@example.org'' (ex_meal_body (- 5))) ex_db)) \<and>
   status (fst (app ex_env
       (ex_request PostMeals ''merchant:m@example.org'' (ex_meal_body (1 / 2))) ex_db)) = 201 \<and>
   portions_nonneg (snd (app ex_env
       (ex_request PostMeals ''merchant:m@example.org'' (ex_meal_body (1 / 2))) ex_db)) \<and>
   \<not> portions_nonneg (snd (app ex_env
       (ex_request (PostReserve 2) ''user:a@example.org'' empty_body)
       (snd (app ex_env
          (ex_request PostMeals ''merchant:m@example.org'' (ex_meal_body (1 / 2))) ex_db))))"
proof -
  let ?half = "\<lparr>meal_id = 2, merchant_id = 1, title = ''Stew'', description = [],
        portions_available = 1 / 2, pickup_time = ''2026-01-02 12:00:00'',
        meal_created_at = 1000000\<rparr>"
  have post: "app ex_env (ex_request PostMeals ''merchant:m@example.org'' b) ex_db
      = create_meal ex_env ex_merchant b ex_db" for b
    by (simp add: app_def ex_request_def ex_tokens)
  have neg: "meals (snd (create_meal ex_env ex_merchant (ex_meal_body (- 5)) ex_db)) =
      [ex_soup,
       \<lparr>meal_id = 2, merchant_id = 1, title = ''Stew'', description = [],
        portions_available = - 5, pickup_time = ''2026-01-02 12:00:00'',
        meal_created_at = 1000000\<rparr>]"
    by (simp add: create_meal_def insert_meal_def ex_meal_body_def empty_body_def
        ex_merchant_def ex_env_def ex_db_def ex_soup_def next_id_def Let_def)
  have half: "create_meal ex_env ex_merchant (ex_meal_body (1 / 2)) ex_db =
      (fst (create_meal ex_env ex_merchant (ex_meal_body (1 / 2)) ex_db),
       ex_db\<lparr>meals := [ex_soup, ?half], last_id := 2\<rparr>)"
    and created: "status (fst (create_meal ex_env ex_merchant (ex_meal_body (1 / 2)) ex_db)) = 201"
    by (simp_all add: create_meal_def insert_meal_def ex_meal_body_def empty_body_def
        ex_merchant_def ex_env_def ex_db_def ex_soup_def next_id_def Let_def)
  have res: "app ex_env (ex_request (PostReserve 2) ''user:a@example.org'' empty_body) s
      = reserve ex_env ex_alice 2 s" for s
    by (simp add: app_def ex_request_def ex_tokens)
  have after: "meals (snd (reserve ex_env ex_alice 2
        (ex_db\<lparr>meals := [ex_soup, ?half], last_id := 2\<rparr>))) =
      [ex_soup, ?half\<lparr>portions_available := - (1 / 2)\<rparr>]"
    by (simp add: reserve_def ex_env_def ex_alice_def ex_db_def ex_soup_def
        recent_reservation_def get_meal_def insert_reservation_def decrement_portions_def
        Let_def)
  have start: "portions_nonneg ex_db"
    by (simp add: portions_nonneg_def ex_db_def ex_soup_def)
  have a: "\<not> portions_nonneg (snd (app ex_env
       (ex_request PostMeals ''merchant:m@example.org'' (ex_meal_body (- 5))) ex_db))"
    unfolding post by (simp add: portions_nonneg_def neg)
  have b: "portions_nonneg (snd (app ex_env
       (ex_request PostMeals ''merchant:m@example.org'' (ex_meal_body (1 / 2))) ex_db))"
    unfolding post by (subst half) (simp add: portions_nonneg_def ex_soup_def)
  have c: "\<not> portions_nonneg (snd (app ex_env
       (ex_request (PostReserve 2) ''user:a@example.org'' empty_body)
       (snd (app ex_env
          (ex_request PostMeals ''merchant:m@example.org'' (ex_meal_body (1 / 2))) ex_db))))"
    unfolding post res by (subst half) (simp add: portions_nonneg_def after)
  from start a created b c show ?thesis
    unfolding post by blast
qed

section \<open>The key constraints are kept\<close>

text \<open>
  The hypotheses on keys used above hold in every store the routes can produce: a
  request keeps user ids and emails distinct and every meal's \<^verbatim>\<open>merchant_id\<close> among the
  user ids, as long as tokens verify only to claims of existing users (login signs the
  id of a row of the users table, and no route deletes a user).
\<close>

lemma register_users:
  "snd (register e b s) = s \<or>
   (\<exists>h. the (b_email b) \<notin> set (map user_email (users s)) \<and>
      snd (register e b s) =
        s\<lparr>users := users s @
             [\<lparr>user_id = next_id (map user_id (users s)), user_name = the (b_name b),
               user_email = the (b_email b), password_hash = h,
               user_role = (if b_role b = Some ''merchant'' then ''merchant'' else ''user''),
               user_created_at = now e\<rparr>],
          last_id := next_id (map user_id (users s))\<rparr>)"
proof (cases "snd (register e b s) = s")
  case True
  then show ?thesis by simp
next
  case False
  then have ok: "\<not> (falsy_str (b_name b) \<or> falsy_str (b_email b) \<or> falsy_str (b_password b))"
    by (auto simp: register_def)
  from False ok obtain h where h: "bcrypt_hash e (the (b_password b)) = Some h"
    by (cases "bcrypt_hash e (the (b_password b))") (auto simp: register_def Let_def)
  from False ok h have f: "\<not> db_fault e 0"
    by (auto simp: register_def insert_user_def Let_def)
  from False ok h f have fresh: "the (b_email b) \<notin> set (map user_email (users s))"
    by (auto simp: register_def insert_user_def Let_def)
  from ok h f fresh have "snd (register e b s) =
        s\<lparr>users := users s @
             [\<lparr>user_id = next_id (map user_id (users s)), user_name = the (b_name b),
               user_email = the (b_email b), password_hash = h,
               user_role = (if b_role b = Some ''merchant'' then ''merchant'' else ''user''),
               user_created_at = now e\<rparr>],
          last_id := next_id (map user_id (users s))\<rparr>"
    by (simp add: register_def insert_user_def Let_def)
  with fresh show ?thesis by blast
qed

lemma register_keeps_keys:
  assumes "users_primary_key s" and "distinct (map user_email (users s))"
    and "meals_foreign_key s"
  shows "users_primary_key (snd (register e b s)) \<and>
         distinct (map user_email (users (snd (register e b s)))) \<and>
         meals_foreign_key (snd (register e b s))"
proof -
  from register_users [of e b s] show ?thesis
  proof (elim disjE exE conjE)
    assume "snd (register e b s) = s"
    with assms show ?thesis by simp
  next
    fix h
    assume fresh: "the (b_email b) \<notin> set (map user_email (users s))"
      and eq: "snd (register e b s) =
        s\<lparr>users := users s @
             [\<lparr>user_id = next_id (map user_id (users s)), user_name = the (b_name b),
               user_email = the (b_email b), password_hash = h,
               user_role = (if b_role b = Some ''merchant'' then ''merchant'' else ''user''),
               user_created_at = now e\<rparr>],
          last_id := next_id (map user_id (users s))\<rparr>"
    show ?thesis
      unfolding eq using assms fresh next_id_fresh [of "map user_id (users s)"]
      by (auto simp: users_primary_key_def meals_foreign_key_def)
  qed
qed

lemma create_meal_keeps_foreign_key:
  assumes "meals_foreign_key s" and "c_id u \<in> set (map user_id (users s))"
  shows "meals_foreign_key (snd (create_meal e u b s)) \<and>
         users (snd (create_meal e u b s)) = users s"
  using assms
  by (auto simp: create_meal_def insert_meal_def meals_foreign_key_def Let_def)

lemma reserve_keeps_foreign_key:
  assumes "meals_foreign_key s"
  shows "meals_foreign_key (snd (reserve e u mealId s)) \<and>
         users (snd (reserve e u mealId s)) = users s"
  using reserve_outcome [of e u mealId s] assms
  by (elim disjE exE conjE)
    (auto simp: meals_foreign_key_def decrement_portions_def insert_reservation_def Let_def)

lemma app_keeps_keys:
  assumes "users_primary_key s" and "distinct (map user_email (users s))"
    and "meals_foreign_key s"
    and "\<forall>tok u. jwt_verify e tok = Some u \<longrightarrow> c_id u \<in> set (map user_id (users s))"
  shows "users_primary_key (snd (app e req s)) \<and>
         distinct (map user_email (users (snd (app e req s)))) \<and>
         meals_foreign_key (snd (app e req s))"
proof (cases "r_route req")
  case GetRoot
  with assms show ?thesis by (simp add: app_def)
next
  case PostRegister
  with assms register_keeps_keys [of s e "r_body req"] show ?thesis by (simp add: app_def)
next
  case PostLogin
  with assms show ?thesis by (simp add: app_def)
next
  case PostMeals
  show ?thesis
  proof (cases "authenticateToken e (r_authorization req)")
    case (Inl r)
    with PostMeals assms show ?thesis by (simp add: app_def)
  next
    case (Inr u)
    then have "c_id u \<in> set (map user_id (users s))"
      using assms(4) by (auto simp: authenticateToken_def split: option.splits)
    with assms(3) create_meal_keeps_foreign_key [of s u e "r_body req"] PostMeals Inr assms(1,2)
    show ?thesis by (simp add: app_def users_primary_key_def)
  qed
next
  case GetMeals
  with assms show ?thesis by (simp add: app_def)
next
  case (PostReserve i)
  show ?thesis
  proof (cases "authenticateToken e (r_authorization req)")
    case (Inl r)
    with PostReserve assms show ?thesis by (simp add: app_def)
  next
    case (Inr u)
    with assms(1-3) reserve_keeps_foreign_key [of s e u i] PostReserve
    show ?thesis by (simp add: app_def users_primary_key_def)
  qed
qed

section \<open>Reservation requests alone and together\<close>

text \<open>The 201 response of a reservation of meal 1 by user 2, written out.\<close>

lemma reservation_created_example:
  "reservation_created 1 2 1 =
     \<lparr>status = 201,
      payload = JObj [(''message'', JStr ''Reservation created successfully.''),
        (''reservation'', JObj [(''id'', JNum 1), (''user_id'', JNum 2),
           (''meal_id'', JStr ''1'')])]\<rparr>"
  and "decimal 0 = ''0''" and "decimal 42 = ''42''" and "decimal 1907 = ''1907''"
  by (simp_all add: reservation_created_def decimal_def decimal_nat.simps digit_char_def)


text \<open>
  The handler written as a chain of callbacks and the request run step by step, alone
  on the connection, are the same function.
\<close>

lemma run_alone_reserve:
  "run_alone e (reserve_begin u mealId) s =
     (\<lparr>t_user = c_id u, t_meal = mealId,
       t_pending = Responded (fst (reserve e u mealId s))\<rparr>,
      snd (reserve e u mealId s))"
proof (cases "c_role u = ''user''")
  case False
  then show ?thesis
    by (simp add: run_alone_def reserve_begin_def reserve_def)
next
  case role: True
  show ?thesis
  proof (cases "db_fault e 0")
    case True
    with role show ?thesis
      by (simp add: run_alone_def reserve_begin_def reserve_def)
  next
    case f0: False
    show ?thesis
    proof (cases "recent_reservation s (c_id u) (now e)")
      case (Some r)
      with role f0 show ?thesis
        by (simp add: run_alone_def reserve_begin_def reserve_def)
    next
      case None
      show ?thesis
      proof (cases "db_fault e 1")
        case True
        with role f0 None show ?thesis
          by (simp add: run_alone_def reserve_begin_def reserve_def)
      next
        case f1: False
        show ?thesis
        proof (cases "get_meal s mealId")
          case no_meal: None
          with role f0 None f1 show ?thesis
            by (simp add: run_alone_def reserve_begin_def reserve_def)
        next
          case (Some m)
          show ?thesis
          proof (cases "portions_available m \<le> 0")
            case True
            with role f0 None f1 Some show ?thesis
              by (simp add: run_alone_def reserve_begin_def reserve_def)
          next
            case False
            with role f0 None f1 Some show ?thesis
              by (cases "db_fault e 2"; cases "db_fault e 3")
                (simp_all add: run_alone_def reserve_begin_def reserve_def Let_def)
          qed
        qed
      qed
    qed
  qed
qed

text \<open>
  Claim C1 asks that of N concurrent attempts on a meal with P < N portions exactly P
  succeed. Here two users who are both eligible reserve the one portion of the same
  meal, and the connection runs their statements in turn: each request reads
  \<^verbatim>\<open>portions_available = 1\<close> before the other has decremented it, both are answered 201,
  two reservation rows are stored and \<^verbatim>\<open>portions_available\<close> ends at -1.
\<close>

theorem two_requests_one_portion_oversell:
  "interleave 1000000 [0, 1, 0, 1, 0, 1, 0, 1]
     [reserve_begin ex_alice 1, reserve_begin ex_bob 1] ex_db =
   ([\<lparr>t_user = 2, t_meal = 1, t_pending = Responded (reservation_created 2 2 1)\<rparr>,
     \<lparr>t_user = 3, t_meal = 1, t_pending = Responded (reservation_created 2 3 1)\<rparr>],
    ex_db\<lparr>meals := [ex_soup\<lparr>portions_available := - 1\<rparr>],
      reservations :=
        [\<lparr>reservation_id = 1, res_user_id = 2, res_meal_id = 1, res_created_at = 1000000\<rparr>,
         \<lparr>reservation_id = 2, res_user_id = 3, res_meal_id = 1, res_created_at = 1000000\<rparr>],
      last_id := 2\<rparr>)"
  by (simp add: reserve_begin_def ex_alice_def ex_bob_def ex_db_def ex_soup_def
      recent_reservation_def get_meal_def insert_reservation_def decrement_portions_def
      next_id_def three_days_def Let_def)

text \<open>When the same two requests run one after the other, the second is sold out.\<close>

lemma two_requests_one_portion_serial:
  "interleave 1000000 [0, 0, 0, 0, 1, 1, 1, 1]
     [reserve_begin ex_alice 1, reserve_begin ex_bob 1] ex_db =
   ([\<lparr>t_user = 2, t_meal = 1, t_pending = Responded (reservation_created 1 2 1)\<rparr>,
     \<lparr>t_user = 3, t_meal = 1,
      t_pending = Responded (error_response 400 ''No portions left for this meal.'')\<rparr>],
    ex_db\<lparr>meals := [ex_soup\<lparr>portions_available := 0\<rparr>],
      reservations :=
        [\<lparr>reservation_id = 1, res_user_id = 2, res_meal_id = 1, res_created_at = 1000000\<rparr>]\<rparr>)"
  by (simp add: reserve_begin_def ex_alice_def ex_bob_def ex_db_def ex_soup_def
      recent_reservation_def get_meal_def insert_reservation_def decrement_portions_def
      next_id_def three_days_def Let_def)

text \<open>
  Claim C3 asks that the reservation row and the decrement persist together or not at
  all. Here the INSERT succeeds and the UPDATE that follows ends in a storage error:
  the request is answered 500, the reservation row stays in the table, and the meal
  still has its one portion.
\<close>

theorem update_fault_leaves_reservation:
  "reserve (ex_env\<lparr>db_fault := \<lambda>i. i = 3\<rparr>) ex_alice 1 ex_db =
     (error_response 500 ''Database error.'',
      ex_db\<lparr>reservations :=
        [\<lparr>reservation_id = 1, res_user_id = 2, res_meal_id = 1,
          res_created_at = 1000000\<rparr>]\<rparr>)"
  by (simp add: reserve_def ex_env_def ex_alice_def ex_db_def ex_soup_def
      recent_reservation_def get_meal_def insert_reservation_def next_id_def Let_def)

end
